theory Spec2Isabelle
  imports Complex_Main "HOL-Library.Sublist"
begin

section \<open>Errors and the error monad\<close>

text \<open>
  Every exception the modelled Python raises is a value of \<open>py_error\<close>; a function
  that may raise returns \<open>py_error + 'a\<close>, with \<open>Inl\<close> for the exception.
  \<open>ShapeMismatch\<close> is the \<open>ValueError\<close> that \<open>ArrayTrace.record\<close> raises; it carries
  the three values its message interpolates (path, offered shape, expected shape).
\<close>

datatype tree_key = DictKey string | SequenceKey nat | GetAttrKey string

datatype py_error =
    AssertionError string
  | ValueError string
  | KeyError string
  | IndexError string
  | TypeError string
  | OverflowError string
  | SyntaxError string
  | ShapeMismatch "tree_key list" "nat list" "nat list"

definition bind_err :: "py_error + 'a \<Rightarrow> ('a \<Rightarrow> py_error + 'b) \<Rightarrow> py_error + 'b" where
  "bind_err m f = (case m of Inl e \<Rightarrow> Inl e | Inr v \<Rightarrow> f v)"

section \<open>kpsn/util.py: squared Mahalanobis distance\<close>

text \<open>
  Arrays of rank one and two are lists and lists of rows. The element type is left open:
  only \<open>0\<close>, \<open>+\<close>, \<open>-\<close> and \<open>*\<close> are used and no law of arithmetic is assumed, so
  what is proved holds for floating-point elements as well.
\<close>

type_synonym 'a vec = "'a list"
type_synonym 'a mat = "'a list list"

definition is_matrix :: "nat \<Rightarrow> nat \<Rightarrow> 'a mat \<Rightarrow> bool" where
  "is_matrix r c m = (length m = r \<and> list_all (\<lambda>row. length row = c) m)"

definition ncols :: "'a mat \<Rightarrow> nat" where
  "ncols m = (case m of [] \<Rightarrow> 0 | row # _ \<Rightarrow> length row)"

text \<open>\<open>x - y\<close> on rank-one arrays: equal lengths, or one side of length one is broadcast.\<close>

definition vsub :: "'a::minus vec \<Rightarrow> 'a vec \<Rightarrow> py_error + 'a vec" where
  "vsub x y =
     (if length x = length y then Inr (map2 (-) x y)
      else if length x = 1 then Inr (map (\<lambda>b. hd x - b) y)
      else if length y = 1 then Inr (map (\<lambda>a. a - hd y) x)
      else Inl (TypeError ''sub got incompatible shapes for broadcasting''))"

definition dot :: "'a::{zero,plus,times} vec \<Rightarrow> 'a vec \<Rightarrow> 'a" where
  "dot u v = foldl (+) 0 (map2 (*) u v)"

definition column :: "'a mat \<Rightarrow> nat \<Rightarrow> 'a vec" where
  "column m j = map (\<lambda>row. row ! j) m"

text \<open>\<open>a @ b\<close> on rank-two arrays: the inner dimensions must agree.\<close>

definition matmul :: "'a::{zero,plus,times} mat \<Rightarrow> 'a mat \<Rightarrow> py_error + 'a mat" where
  "matmul a b =
     (if is_matrix (length a) (length b) a \<and> is_matrix (length b) (ncols b) b
      then Inr (map (\<lambda>row. map (\<lambda>j. dot row (column b j)) [0..<ncols b]) a)
      else Inl (TypeError ''dot_general requires contracting dimensions to have the same shape''))"

text \<open>
  \<open>sq_mahalanobis(x, y, cov=None, cov_inv=None)\<close> for one pair of vectors (no batch
  axes). \<open>jnp.linalg.inv\<close> belongs to the array library and is the parameter \<open>linv\<close>.
  The difference is taken before the assertion, as in the source.
\<close>

definition sq_mahalanobis ::
  "('a mat \<Rightarrow> 'a mat) \<Rightarrow> 'a::{zero,plus,minus,times} vec \<Rightarrow> 'a vec \<Rightarrow>
     'a mat option \<Rightarrow> 'a mat option \<Rightarrow> py_error + 'a" where
  "sq_mahalanobis linv x y cov cov_inv =
     bind_err (vsub x y) (\<lambda>diff.
       if \<not> (cov \<noteq> None \<or> cov_inv \<noteq> None)
       then Inl (AssertionError ''One of `cov` or `cov_inv` required.'')
       else
         let cov_inv' = (case cov_inv of None \<Rightarrow> linv (the cov) | Some ci \<Rightarrow> ci) in
         bind_err (matmul [diff] cov_inv') (\<lambda>r.
         bind_err (matmul r (map (\<lambda>d. [d]) diff)) (\<lambda>m.
           Inr (m ! 0 ! 0))))"

section \<open>kpsn/util.py: variance of the inverse Wishart distribution\<close>

text \<open>
  Element-wise operations on rank-two arrays follow the array library's broadcasting:
  two axes are compatible when they are equal or one of them is 1, and an axis of
  length 1 is read at index 0. Values are real numbers here (exact arithmetic).
\<close>

definition bcast_dim :: "nat \<Rightarrow> nat \<Rightarrow> nat option" where
  "bcast_dim a b =
     (if a = b then Some a else if a = 1 then Some b else if b = 1 then Some a else None)"

definition bget :: "'a mat \<Rightarrow> nat \<Rightarrow> nat \<Rightarrow> 'a" where
  "bget m i j = m ! (if length m = 1 then 0 else i) ! (if ncols m = 1 then 0 else j)"

definition broadcast2 :: "('a \<Rightarrow> 'a \<Rightarrow> 'a) \<Rightarrow> 'a mat \<Rightarrow> 'a mat \<Rightarrow> py_error + 'a mat" where
  "broadcast2 f a b =
     (case (bcast_dim (length a) (length b), bcast_dim (ncols a) (ncols b)) of
        (Some r, Some c) \<Rightarrow>
          Inr (map (\<lambda>i. map (\<lambda>j. f (bget a i j) (bget b i j)) [0..<c]) [0..<r])
      | _ \<Rightarrow> Inl (TypeError ''incompatible shapes for broadcasting''))"

definition mmap :: "('a \<Rightarrow> 'b) \<Rightarrow> 'a mat \<Rightarrow> 'b mat" where
  "mmap f m = map (map f) m"

text \<open>\<open>jnp.diag\<close> of a rank-two array, and integer-array indexing \<open>v[ix]\<close> (the library
  clamps an index that is out of bounds).\<close>

definition diag :: "'a mat \<Rightarrow> 'a vec" where
  "diag m = map (\<lambda>i. m ! i ! i) [0..<min (length m) (ncols m)]"

definition gather :: "'a vec \<Rightarrow> nat mat \<Rightarrow> 'a mat" where
  "gather v ix = mmap (\<lambda>i. v ! min i (length v - 1)) ix"

text \<open>
  \<open>_single_variance(df, scale)\<close>, statement by statement. \<open>scale.ndim == 2\<close> holds by
  the type of \<open>scale\<close>; the repeat count 3 in \<open>rows\<close> and \<open>cols\<close> is the source's.
\<close>

definition single_variance :: "real mat \<Rightarrow> real mat \<Rightarrow> py_error + real mat" where
  "single_variance df scale =
     (if (length df, ncols df) = (length scale, ncols scale) then
        (let dim = ncols scale;
             dg = diag scale;
             rows = map (\<lambda>i. replicate 3 i) [0..<dim];
             cols = replicate 3 [0..<dim]
         in
         bind_err (broadcast2 (*) (mmap (\<lambda>d. d - real dim + 1) df) (mmap (\<lambda>s. s ^ 2) scale)) (\<lambda>t1.
         bind_err (broadcast2 (*) (mmap (\<lambda>d. d - real dim - 1) df) (gather dg rows)) (\<lambda>t2.
         bind_err (broadcast2 (*) t2 (gather dg cols)) (\<lambda>t3.
         bind_err (broadcast2 (+) t1 t3) (\<lambda>numer.
         bind_err (broadcast2 (*) (mmap (\<lambda>d. d - real dim) df)
                     (mmap (\<lambda>d. (d - real dim - 1) ^ 2) df)) (\<lambda>d1.
         bind_err (broadcast2 (*) d1 (mmap (\<lambda>d. d - real dim - 3) df)) (\<lambda>denom.
           broadcast2 (/) numer denom)))))))
      else Inl (AssertionError []))"

text \<open>
  \<open>InverseWishart._variance\<close> for a scalar \<open>df\<close>: the scale is one matrix or a stack of
  arrays along a leading axis. \<open>jnp.broadcast_arrays\<close> gives \<open>df\<close> the shape of the
  scale; \<open>vmap\<close> maps \<open>_single_variance\<close> over the first axis only, so an element that
  is itself a stack fails the assertion \<open>scale.ndim == 2\<close>.
\<close>

datatype 'a nd = Mat "'a mat" | Stack "'a nd list"

fun mapM_err :: "('a \<Rightarrow> py_error + 'b) \<Rightarrow> 'a list \<Rightarrow> py_error + 'b list" where
  "mapM_err f [] = Inr []"
| "mapM_err f (x # xs) =
     bind_err (f x) (\<lambda>y. bind_err (mapM_err f xs) (\<lambda>ys. Inr (y # ys)))"

definition variance :: "real \<Rightarrow> real nd \<Rightarrow> py_error + real nd" where
  "variance df scales =
     (case scales of
        Mat m \<Rightarrow> bind_err (single_variance (mmap (\<lambda>_. df) m) m) (\<lambda>v. Inr (Mat v))
      | Stack xs \<Rightarrow>
          bind_err
            (mapM_err
               (\<lambda>x. case x of
                      Mat m \<Rightarrow> single_variance (mmap (\<lambda>_. df) m) m
                    | Stack _ \<Rightarrow> Inl (AssertionError [])) xs)
            (\<lambda>vs. Inr (Stack (map Mat vs))))"

text \<open>The entry the specification gives for row \<open>i\<close>, column \<open>j\<close> of the variance.\<close>

definition variance_entry :: "real \<Rightarrow> real mat \<Rightarrow> nat \<Rightarrow> nat \<Rightarrow> real" where
  "variance_entry df S i j =
     (let k = real (length S) in
      ((df - k + 1) * (S ! i ! j) ^ 2 + (df - k - 1) * (S ! i ! i) * (S ! j ! j))
        / ((df - k) * (df - k - 1) ^ 2 * (df - k - 3)))"

section \<open>kpsn/io/features.py: subsampling in the calibration of \<open>pcs\<close>\<close>

text \<open>
  The part of the feature configuration that \<open>pcs._calibrate\<close> reads before it fits
  the principal components (defaults: \<open>max_pts = 10000\<close>, \<open>subset_seed = 823\<close>).
\<close>

record pcs_config =
  max_pts :: "nat option"
  subset_seed :: nat

text \<open>
  \<open>jr.choice(key, a, (n,), replace=False)\<close> of the array library: it refuses to draw
  more than \<open>a\<close> indices, and otherwise returns the first \<open>n\<close> entries of a random
  permutation of \<open>0 ..< a\<close>. The permutation belongs to the library and is a
  parameter, keyed by the seed.
\<close>

definition jr_choice :: "(nat \<Rightarrow> nat \<Rightarrow> nat list) \<Rightarrow> nat \<Rightarrow> nat \<Rightarrow> nat \<Rightarrow> py_error + nat list" where
  "jr_choice permutation seed a n =
     (if a < n
      then Inl (ValueError ''Cannot take a larger sample than population when replace=False'')
      else Inr (take n (permutation seed a)))"

text \<open>
  \<open>pcs._calibrate\<close> up to the call of \<open>fit_with_center\<close> (a function of another
  module, the parameter \<open>fit_with_center\<close>): the only test before the draw is
  \<open>config["max_pts"] is not None\<close>. \<open>flat_data\<close> is the list of the dataset's rows.
\<close>

definition pcs_subsample ::
  "(nat \<Rightarrow> nat \<Rightarrow> nat list) \<Rightarrow> pcs_config \<Rightarrow> 'a list \<Rightarrow> py_error + 'a list" where
  "pcs_subsample permutation config flat_data =
     (case max_pts config of
        None \<Rightarrow> Inr flat_data
      | Some m \<Rightarrow>
          bind_err (jr_choice permutation (subset_seed config) (length flat_data) m)
            (\<lambda>subset. Inr (map (\<lambda>i. flat_data ! i) subset)))"

definition pcs_calibrate ::
  "(nat \<Rightarrow> nat \<Rightarrow> nat list) \<Rightarrow> ('a list \<Rightarrow> 'p) \<Rightarrow> pcs_config \<Rightarrow> 'a list \<Rightarrow> py_error + 'p" where
  "pcs_calibrate permutation fit_with_center config flat_data =
     bind_err (pcs_subsample permutation config flat_data)
       (\<lambda>rows. Inr (fit_with_center rows))"

section \<open>kpsn/viz/styles.py\<close>

text \<open>
  What the plotting libraries and the module \<open>_style\<close> provide: the style names that
  \<open>plt.style.use\<close> knows (it always knows \<open>default\<close>), the style sheets in the
  directory \<open>stylesheets\<close>, the registry \<open>color_sets\<close>, and the contexts that
  \<open>sns.set_context\<close> accepts.
\<close>

record 'c style_env =
  mpl_library :: "string list"
  stylesheets :: "string list"
  color_sets :: "(string \<times> 'c) list"
  sns_contexts :: "string list"

text \<open>
  The process-wide state: the styles applied so far (latest last), the singleton
  \<open>colorset.active\<close>, the context set last, and the warnings logged.
\<close>

datatype style_source = Library string | Sheet string

record 'c style_state =
  applied :: "style_source list"
  active :: "'c option"
  sns_context :: "string option"
  warnings :: "string list"

definition library_has :: "'c style_env \<Rightarrow> string \<Rightarrow> bool" where
  "library_has env style = (style = ''default'' \<or> style \<in> set (mpl_library env))"

text \<open>
  One \<open>try\<close> body of \<open>set_style\<close>: \<open>plt.style.use\<close>, then \<open>color_sets[style]\<close>, then
  the assignment to \<open>colorset.active\<close>. The flag tells whether the body ran to its end;
  what it did before an exception stays done.
\<close>

definition try_style ::
  "'c style_env \<Rightarrow> bool \<Rightarrow> style_source \<Rightarrow> string \<Rightarrow> 'c style_state \<Rightarrow> bool \<times> 'c style_state" where
  "try_style env found src style st =
     (if found then
        (let st1 = st\<lparr>applied := applied st @ [src]\<rparr> in
         case map_of (color_sets env) style of
           Some c \<Rightarrow> (True, st1\<lparr>active := Some c\<rparr>)
         | None \<Rightarrow> (False, st1))
      else (False, st))"

text \<open>The warning is a plain string literal in the source (it has no \<open>f\<close> prefix).\<close>

definition style_warning :: string where
  "style_warning = ''[init_nb] No matplotlib style `{style}` found, resorting to `default`.''"

definition set_style ::
  "'c style_env \<Rightarrow> string \<Rightarrow> 'c style_state \<Rightarrow> py_error option \<times> 'c style_state" where
  "set_style env style st =
     (case try_style env (library_has env style) (Library style) style st of
        (True, st1) \<Rightarrow> (None, st1)
      | (False, st1) \<Rightarrow>
          (case try_style env (style \<in> set (stylesheets env)) (Sheet style) style st1 of
             (True, st2) \<Rightarrow> (None, st2)
           | (False, st2) \<Rightarrow>
               (let st3 = st2\<lparr>warnings := warnings st2 @ [style_warning]\<rparr>;
                    st4 = st3\<lparr>applied := applied st3 @ [Library ''default'']\<rparr>
                in case map_of (color_sets env) ''default'' of
                     Some c \<Rightarrow> (None, st4\<lparr>active := Some c\<rparr>)
                   | None \<Rightarrow> (Some (KeyError ''default''), st4))))"

text \<open>
  \<open>init_nb(plot_dir, style, context, **kws)\<close>; \<open>plot_finalizer\<close> comes from \<open>_style\<close>
  and is a parameter. The result pairs the outcome with the state left behind, since
  the state changes made before an exception persist.
\<close>

definition init_nb ::
  "'c style_env \<Rightarrow> (string \<Rightarrow> 'k \<Rightarrow> 'p) \<Rightarrow> string \<Rightarrow> string \<Rightarrow> string \<Rightarrow> 'k \<Rightarrow> 'c style_state
     \<Rightarrow> (py_error + 'p \<times> 'c option) \<times> 'c style_state" where
  "init_nb env plot_finalizer plot_dir style context kws st =
     (case set_style env style st of
        (Some e, st1) \<Rightarrow> (Inl e, st1)
      | (None, st1) \<Rightarrow>
          (let style' = active st1 in
           if context \<in> set (sns_contexts env) then
             (let st2 = st1\<lparr>sns_context := Some context\<rparr> in
              case map_of (color_sets env) style of
                None \<Rightarrow> (Inl (KeyError style), st2)
              | Some clr \<Rightarrow> (Inr (plot_finalizer plot_dir kws, style'), st2))
           else (Inl (ValueError ''context must be in paper, notebook, talk, poster''), st1)))"

section \<open>kpsn/logging.py: the array trace\<close>

text \<open>
  An array is its shape and its elements in row-major order. A pytree is the list of
  its leaves with their key paths, in the order of \<open>tree_flatten_with_path\<close>; two
  trees have the same structure when their lists of paths are equal. The tree
  functions of the array library work on this flattened form. The elements of a
  report have type \<open>'r\<close> and those of the trace type \<open>'v\<close>.
\<close>

record 'v array =
  shape :: "nat list"
  elems :: "'v list"

type_synonym 'v pytree = "(tree_key list \<times> 'v array) list"

definition zeros :: "nat list \<Rightarrow> 'v::zero array" where
  "zeros s = \<lparr>shape = s, elems = replicate (prod_list s) 0\<rparr>"

definition tree_map_with_path ::
  "(tree_key list \<Rightarrow> 'v array \<Rightarrow> 'r array \<Rightarrow> py_error + 'v array) \<Rightarrow> 'v pytree \<Rightarrow> 'r pytree
     \<Rightarrow> py_error + 'v pytree" where
  "tree_map_with_path f t r =
     (if map fst r = map fst t
      then mapM_err (\<lambda>((pth, a), (_, b)). bind_err (f pth a b) (\<lambda>v. Inr (pth, v))) (zip t r)
      else Inl (ValueError ''Custom node type mismatch''))"

text \<open>
  An integer index of the array library is a 32-bit integer (the library's default
  configuration): a Python \<open>int\<close> outside that range cannot be converted, and both
  \<open>trace[step]\<close> and \<open>trace.at[step]\<close> raise before the array is looked at.
\<close>

definition int32_index :: "int \<Rightarrow> py_error + int" where
  "int32_index step =
     (if - (2 ^ 31) \<le> step \<and> step < 2 ^ 31 then Inr step
      else Inl (OverflowError ''Python int too large to convert to int32''))"

text \<open>
  The slot that an index along an axis of length \<open>n\<close> writes: a negative index counts
  from the end once, and an update whose index is still out of bounds is dropped.
\<close>

definition slot_of :: "nat \<Rightarrow> int \<Rightarrow> nat option" where
  "slot_of n i =
     (let j = (if i < 0 then i + int n else i) in
      if 0 \<le> j \<and> j < int n then Some (nat j) else None)"

text \<open>
  The buffer after slot \<open>i\<close> has been given the leaf's elements, converted to the
  element type of the trace by \<open>cast\<close> (the conversion to the buffer's dtype).
\<close>

definition set_slot :: "('r \<Rightarrow> 'v) \<Rightarrow> 'v array \<Rightarrow> int \<Rightarrow> 'r array \<Rightarrow> 'v array" where
  "set_slot cast trace i leaf =
     (case shape trace of
        [] \<Rightarrow> trace
      | n # s \<Rightarrow>
          (case slot_of n i of
             None \<Rightarrow> trace
           | Some k \<Rightarrow>
               trace\<lparr>elems := take (k * prod_list s) (elems trace) @ map cast (elems leaf)
                                 @ drop ((k + 1) * prod_list s) (elems trace)\<rparr>))"

text \<open>\<open>trace.at[step].set(leaf)\<close> along the first axis.\<close>

definition at_set :: "('r \<Rightarrow> 'v) \<Rightarrow> 'v array \<Rightarrow> int \<Rightarrow> 'r array \<Rightarrow> py_error + 'v array" where
  "at_set cast trace step leaf =
     bind_err (int32_index step) (\<lambda>i.
       case shape trace of
         [] \<Rightarrow> Inl (IndexError ''too many indices for array'')
       | n # s \<Rightarrow> Inr (set_slot cast trace i leaf))"

text \<open>
  \<open>trace[step]\<close> along the first axis: the index is converted first; an axis of
  length 0 has nothing to read and the read raises; otherwise an index out of bounds
  is clamped. \<open>index_shape\<close> is \<open>trace[step].shape\<close>.
\<close>

definition index_read :: "'v array \<Rightarrow> int \<Rightarrow> py_error + 'v array" where
  "index_read trace step =
     bind_err (int32_index step) (\<lambda>i.
       case shape trace of
         [] \<Rightarrow> Inl (IndexError ''too many indices for array'')
       | n # s \<Rightarrow>
           if n = 0 then Inl (IndexError ''index is out of bounds for axis 0 with size 0'')
           else
             (let j = nat (max 0 (min (if i < 0 then i + int n else i) (int n - 1)));
                  sz = prod_list s
              in Inr \<lparr>shape = s, elems = take sz (drop (j * sz) (elems trace))\<rparr>))"

definition index_shape :: "'v array \<Rightarrow> int \<Rightarrow> py_error + nat list" where
  "index_shape trace step = bind_err (index_read trace step) (\<lambda>a. Inr (shape a))"

text \<open>The class \<open>ArrayTrace\<close>: \<open>_n_steps\<close> and \<open>_tree\<close> (\<open>None\<close> until the first record).\<close>

record 'v ArrayTrace =
  n_steps :: nat
  tree :: "'v pytree option"

definition initialize :: "'v::zero ArrayTrace \<Rightarrow> 'r pytree \<Rightarrow> 'v ArrayTrace" where
  "initialize tr report =
     tr\<lparr>tree := Some (map (\<lambda>(pth, leaf). (pth, zeros (n_steps tr # shape leaf))) report)\<rparr>"

text \<open>
  The exception of a shape mismatch is raised by \<open>exec\<close> of a \<open>raise ValueError("...")\<close>
  statement whose text is built around \<open>str\<close> of the path. The keys appear there by
  their \<open>repr\<close>; a key that holds a quote character puts a \<open>"\<close> inside the string
  literal, and the statement is no longer the intended one. What \<open>exec\<close> then raises is
  the interpreter's (a \<open>SyntaxError\<close> for the key \<open>a"b\<close>) and is the parameter
  \<open>exec_malformed\<close>.
\<close>

definition key_has_quote :: "tree_key \<Rightarrow> bool" where
  "key_has_quote k =
     (case k of
        DictKey s \<Rightarrow> CHR 0x22 \<in> set s \<or> CHR 0x27 \<in> set s
      | SequenceKey n \<Rightarrow> False
      | GetAttrKey s \<Rightarrow> CHR 0x22 \<in> set s \<or> CHR 0x27 \<in> set s)"

definition raise_mismatch ::
  "(tree_key list \<Rightarrow> nat list \<Rightarrow> nat list \<Rightarrow> py_error) \<Rightarrow> tree_key list \<Rightarrow> nat list \<Rightarrow> nat list
     \<Rightarrow> py_error" where
  "raise_mismatch exec_malformed pth offered expected =
     (if list_ex key_has_quote pth then exec_malformed pth offered expected
      else ShapeMismatch pth offered expected)"

text \<open>
  The function that \<open>record\<close> maps over the leaves. The condition is evaluated first,
  and with it \<open>trace[step]\<close>; then the slot is written, or the exception raised.
  Leaves are arrays.
\<close>

definition record_leaf ::
  "(tree_key list \<Rightarrow> nat list \<Rightarrow> nat list \<Rightarrow> py_error) \<Rightarrow> ('r \<Rightarrow> 'v) \<Rightarrow> int \<Rightarrow> tree_key list
     \<Rightarrow> 'v array \<Rightarrow> 'r array \<Rightarrow> py_error + 'v array" where
  "record_leaf exec_malformed cast step pth trace report_leaf =
     bind_err (index_shape trace step) (\<lambda>expected.
       if shape report_leaf = expected
       then at_set cast trace step report_leaf
       else Inl (raise_mismatch exec_malformed pth (shape report_leaf) expected))"

text \<open>
  \<open>ArrayTrace.record(reports, step)\<close>. The result is the trace after the call, or the
  exception; when a leaf raises, \<open>_tree\<close> is not assigned by the map and stays what it
  was before it (the buffers of \<open>initialize\<close> when the call was the first).
\<close>

definition record_report ::
  "(tree_key list \<Rightarrow> nat list \<Rightarrow> nat list \<Rightarrow> py_error) \<Rightarrow> ('r \<Rightarrow> 'v) \<Rightarrow> 'v::zero ArrayTrace
     \<Rightarrow> 'r pytree \<Rightarrow> int \<Rightarrow> py_error + 'v ArrayTrace" where
  "record_report exec_malformed cast tr reports step =
     (let tr1 = (case tree tr of None \<Rightarrow> initialize tr reports | Some _ \<Rightarrow> tr) in
      case tree tr1 of
        None \<Rightarrow> Inr tr1
      | Some t \<Rightarrow>
          bind_err (tree_map_with_path (record_leaf exec_malformed cast step) t reports)
            (\<lambda>t'. Inr (tr1\<lparr>tree := Some t'\<rparr>)))"

text \<open>\<open>ArrayTrace.__getitem__(step)\<close>: every buffer read at \<open>step\<close>.\<close>

definition getitem :: "'v ArrayTrace \<Rightarrow> int \<Rightarrow> py_error + 'v pytree option" where
  "getitem tr step =
     (case tree tr of
        None \<Rightarrow> Inr None
      | Some t \<Rightarrow>
          bind_err
            (mapM_err (\<lambda>(pth, arr). bind_err (index_read arr step) (\<lambda>v. Inr (pth, v))) t)
            (\<lambda>t'. Inr (Some t')))"

text \<open>
  An initialized trace as \<open>initialize\<close> and \<open>record\<close> leave it: every buffer has
  \<open>n_steps\<close> as its first axis and as many elements as its shape says. A report fits a
  tree when it has the tree's paths and every leaf has the shape of one slot.
\<close>

definition buffer_ok :: "nat \<Rightarrow> 'v array \<Rightarrow> bool" where
  "buffer_ok n b =
     (case shape b of [] \<Rightarrow> False | m # s \<Rightarrow> m = n \<and> length (elems b) = n * prod_list s)"

definition initialized :: "'v ArrayTrace \<Rightarrow> bool" where
  "initialized tr =
     (case tree tr of None \<Rightarrow> False | Some t \<Rightarrow> list_all (\<lambda>(pth, b). buffer_ok (n_steps tr) b) t)"

definition leaf_fits :: "'v array \<Rightarrow> 'r array \<Rightarrow> bool" where
  "leaf_fits b leaf =
     (shape leaf = tl (shape b) \<and> length (elems leaf) = prod_list (shape leaf))"

definition report_fits :: "'v ArrayTrace \<Rightarrow> 'r pytree \<Rightarrow> bool" where
  "report_fits tr r =
     (case tree tr of
        None \<Rightarrow> False
      | Some t \<Rightarrow> map fst r = map fst t \<and> list_all2 (\<lambda>(pth, b) (pth', leaf). leaf_fits b leaf) t r)"

text \<open>The tree that \<open>record\<close> assigns when every leaf of the report is written.\<close>

definition write_all :: "('r \<Rightarrow> 'v) \<Rightarrow> int \<Rightarrow> 'v pytree \<Rightarrow> 'r pytree \<Rightarrow> 'v pytree" where
  "write_all cast step t r = map (\<lambda>((pth, b), (pth', l)). (pth, set_slot cast b step l)) (zip t r)"

text \<open>A report as it reads back from the trace: with its elements converted.\<close>

definition cast_report :: "('r \<Rightarrow> 'v) \<Rightarrow> 'r pytree \<Rightarrow> 'v pytree" where
  "cast_report cast r = map (\<lambda>(pth, l). (pth, \<lparr>shape = shape l, elems = map cast (elems l)\<rparr>)) r"

section \<open>kpsn/io/features.py: the reducer \<open>locked_pts\<close>\<close>

text \<open>
  A keypoint array of shape \<open>(n_frames, n_kpts, d)\<close> is a list of frames, a frame a
  list of keypoints, a keypoint a list of \<open>d\<close> coordinates. The calibration data of
  \<open>locked_pts\<close> are the dropped flattened indices and the number of keypoints.
\<close>

record locked_calibration =
  reduce_ixs :: "nat list"
  n_kpts :: nat

definition has_shape :: "'a list list list \<Rightarrow> nat \<Rightarrow> nat \<Rightarrow> nat \<Rightarrow> bool" where
  "has_shape x nf nk d =
     (length x = nf \<and> list_all (\<lambda>frame. length frame = nk \<and> list_all (\<lambda>kp. length kp = d) frame) x)"

text \<open>\<open>flat_data[..., ~ix_mask]\<close>: the entries of a row where the mask is false.\<close>

definition select_unmasked :: "bool list \<Rightarrow> 'a list \<Rightarrow> 'a list" where
  "select_unmasked ix_mask row = map fst (filter (\<lambda>(v, m). \<not> m) (zip row ix_mask))"

text \<open>
  \<open>arr.reshape((arr.shape[0], -1))\<close> concatenates the keypoints of each frame. With
  no frame the length for \<open>-1\<close> is not determined, and the array library refuses the
  reshape.
\<close>

definition flatten_frames :: "'a list list list \<Rightarrow> py_error + 'a list list" where
  "flatten_frames arr =
     (if arr = [] then Inl (TypeError ''cannot reshape array'') else Inr (map concat arr))"

definition reduce_array :: "'a list list list \<Rightarrow> locked_calibration \<Rightarrow> py_error + 'a list list" where
  "reduce_array arr calib =
     bind_err (flatten_frames arr) (\<lambda>flat_data.
       let ix_mask = map (\<lambda>i. i \<in> set (reduce_ixs calib)) [0..<ncols flat_data]
       in Inr (map (select_unmasked ix_mask) flat_data))"

text \<open>
  \<open>jnp.insert(arr, ix, 0, axis=-1)\<close> on one row: the value goes before position
  \<open>ix\<close> (after the end when \<open>ix\<close> is beyond it).
\<close>

definition insert_at :: "nat \<Rightarrow> 'a \<Rightarrow> 'a list \<Rightarrow> 'a list" where
  "insert_at ix v row = take ix row @ v # drop ix row"

text \<open>
  \<open>row.reshape((n_kpts, -1))\<close>: the row is cut into \<open>n_kpts\<close> pieces of one length,
  which must exist; with \<open>n_kpts = 0\<close> the length for \<open>-1\<close> is not determined and the
  reshape is refused.
\<close>

definition reshape_kpts :: "nat \<Rightarrow> 'a list \<Rightarrow> py_error + 'a list list" where
  "reshape_kpts k row =
     (if k = 0 then Inl (TypeError ''cannot reshape array'')
      else if length row mod k = 0
      then Inr (map (\<lambda>j. take (length row div k) (drop (j * (length row div k)) row)) [0..<k])
      else Inl (TypeError ''cannot reshape array''))"

text \<open>
  \<open>inflate_array\<close>: its argument is one frame of features (\<open>arr.ndim < 2\<close>) or a batch
  of frames, and the result has the matching rank. The reshape of a batch is to
  \<open>(arr.shape[0], n_kpts, -1)\<close>, which is refused for a batch of no frames as it is for
  \<open>n_kpts = 0\<close>.
\<close>

datatype 'a features = Single "'a list" | Batch "'a list list"

datatype 'a keypoints = SingleK "'a list list" | BatchK "'a list list list"

definition insert_dropped :: "nat list \<Rightarrow> 'a::zero list \<Rightarrow> 'a list" where
  "insert_dropped ixs row = fold (\<lambda>reduced_ix r. insert_at reduced_ix 0 r) (sort ixs) row"

definition inflate_array :: "'a::zero features \<Rightarrow> locked_calibration \<Rightarrow> py_error + 'a keypoints" where
  "inflate_array arr calib =
     (case arr of
        Single v \<Rightarrow>
          bind_err (reshape_kpts (n_kpts calib) (insert_dropped (reduce_ixs calib) v))
            (\<lambda>k. Inr (SingleK k))
      | Batch rows \<Rightarrow>
          if rows = [] then Inl (TypeError ''cannot reshape array'')
          else
            bind_err
              (mapM_err (\<lambda>row. reshape_kpts (n_kpts calib) (insert_dropped (reduce_ixs calib) row))
                 rows)
              (\<lambda>ks. Inr (BatchK ks)))"

text \<open>
  What \<open>_calibrate\<close> reads of a dataset: the two-dimensional array
  \<open>dataset.as_features().data\<close> (one row per frame) and \<open>dataset.n_points\<close>. The
  class of the dataset is outside these sources.
\<close>

record 'a keypoint_dataset =
  as_features_data :: "'a list list"
  n_points :: nat

text \<open>
  \<open>locked_pts._calibrate\<close>: the indices of the flattened columns whose standard
  deviation over the frames is below \<open>1e-5\<close>, in ascending order as \<open>jnp.where\<close>
  returns them. The entries are the array library's floating-point numbers, of type
  \<open>'a\<close>: the standard deviation \<open>std\<close> of a column, the comparison \<open>lt\<close> and
  the constant \<open>tol\<close> that \<open>1e-5\<close> is converted to are the library's, and are
  parameters.
\<close>

definition locked_calibrate ::
  "('a list \<Rightarrow> 'a) \<Rightarrow> ('a \<Rightarrow> 'a \<Rightarrow> bool) \<Rightarrow> 'a \<Rightarrow> 'a keypoint_dataset \<Rightarrow> locked_calibration" where
  "locked_calibrate std lt tol dataset =
     (let flat_data = as_features_data dataset in
      \<lparr>reduce_ixs = filter (\<lambda>i. lt (std (column flat_data i)) tol) [0..<ncols flat_data],
       n_kpts = n_points dataset\<rparr>)"

text \<open>
  Two views of a row from position \<open>p\<close> on, used to state what reduction keeps and
  what inflation restores: the entries whose position is not in \<open>S\<close>, and the row
  with zero at the positions in \<open>S\<close>.
\<close>

fun keep_from :: "nat \<Rightarrow> nat set \<Rightarrow> 'a list \<Rightarrow> 'a list" where
  "keep_from p S [] = []"
| "keep_from p S (v # vs) = (if p \<in> S then keep_from (Suc p) S vs else v # keep_from (Suc p) S vs)"

fun fill_from :: "nat \<Rightarrow> nat set \<Rightarrow> 'a::zero list \<Rightarrow> 'a list" where
  "fill_from p S [] = []"
| "fill_from p S (v # vs) = (if p \<in> S then 0 else v) # fill_from (Suc p) S vs"

section \<open>kpsn/fitting/scans.py: setting up a scan\<close>

text \<open>
  A configuration value is a scalar, or a mapping from keys to values; a Python
  \<open>dict\<close> is the list of its items in insertion order, with distinct keys.
\<close>

datatype cfg = CNull | CStr string | CInt int | CDict "(string \<times> cfg) list"

type_synonym cfg_dict = "(string \<times> cfg) list"

fun dict_set :: "string \<Rightarrow> 'v \<Rightarrow> (string \<times> 'v) list \<Rightarrow> (string \<times> 'v) list" where
  "dict_set k v [] = [(k, v)]"
| "dict_set k v ((k', v') # d) = (if k = k' then (k, v) # d else (k', v') # dict_set k v d)"

definition dict_of :: "(string \<times> 'v) list \<Rightarrow> (string \<times> 'v) list" where
  "dict_of items = fold (\<lambda>(k, v) d. dict_set k v d) items []"

definition dict_get :: "(string \<times> 'v) list \<Rightarrow> string \<Rightarrow> py_error + 'v" where
  "dict_get d k = (case map_of d k of None \<Rightarrow> Inl (KeyError k) | Some v \<Rightarrow> Inr v)"

definition cfg_get :: "cfg \<Rightarrow> string \<Rightarrow> py_error + cfg" where
  "cfg_get c k =
     (case c of CDict d \<Rightarrow> dict_get d k | _ \<Rightarrow> Inl (TypeError ''object is not subscriptable''))"

text \<open>\<open>xs[i]\<close> for an index that is not negative.\<close>

definition list_get :: "'a list \<Rightarrow> nat \<Rightarrow> py_error + 'a" where
  "list_get xs i = (if i < length xs then Inr (xs ! i) else Inl (IndexError ''list index out of range''))"

text \<open>
  \<open>str(i)\<close> for a natural number, and the name that the default template
  \<open>"{scan_name}_{i}"\<close> formats to.
\<close>

fun str_nat :: "nat \<Rightarrow> string" where
  "str_nat n = (if n < 10 then [''0123456789'' ! n] else str_nat (n div 10) @ [''0123456789'' ! (n mod 10)])"

definition default_model_name_fmt :: "string \<Rightarrow> nat \<Rightarrow> string" where
  "default_model_name_fmt scan_name i = scan_name @ ''_'' @ str_nat i"

text \<open>
  What \<open>setup_scan_config\<close> takes from other modules: \<open>flatten\<close>, \<open>deepen\<close> and
  \<open>recursive_update\<close> of the configuration module, the document that
  \<open>load_model_config(project.base_model_config())\<close> returns, and the defaults of the
  fit type \<open>split\<close>. The grid as the caller gives it (nested or flat) has type \<open>'g\<close>.
\<close>

record 'g scan_env =
  flatten :: "'g \<Rightarrow> (string \<times> cfg list) list"
  deepen :: "cfg_dict \<Rightarrow> cfg_dict"
  recursive_update :: "cfg_dict \<Rightarrow> cfg_dict \<Rightarrow> cfg_dict"
  base_model_config :: cfg_dict
  split_defaults :: cfg_dict

text \<open>The effects on the project directory, in order.\<close>

datatype fs_op = Mkdir string | Save string cfg

definition scan_dir :: "string \<Rightarrow> string \<Rightarrow> string" where
  "scan_dir project_dir name = project_dir @ ''/scans/'' @ name"

definition ensure_dirs :: "string \<Rightarrow> fs_op list" where
  "ensure_dirs project_dir =
     [Mkdir project_dir, Mkdir (project_dir @ ''/scans''), Mkdir (project_dir @ ''/models'')]"

text \<open>The override mapping of model \<open>i\<close>: \<open>{p_name: p_vals[i] for p_name, p_vals in ...}\<close>.\<close>

definition model_overrides_at :: "(string \<times> cfg list) list \<Rightarrow> nat \<Rightarrow> py_error + cfg_dict" where
  "model_overrides_at scan_params i =
     bind_err
       (mapM_err (\<lambda>(p_name, p_vals). bind_err (list_get p_vals i) (\<lambda>v. Inr (p_name, v)))
          scan_params)
       (\<lambda>items. Inr (dict_of items))"

text \<open>
  \<open>setup_scan_config(project, name, scan_params, scan_config_overrides,
  model_name_fmt, model_overrides)\<close>, in the order of the source: the number of models
  from the first parameter, the \<open>models\<close> mapping, the base model configuration and
  the test of its fit type, the \<open>split\<close> configuration, and the files written. The
  name format is the callable that the source makes of it.
\<close>

definition setup_scan_config ::
  "'g scan_env \<Rightarrow> string \<Rightarrow> string \<Rightarrow> 'g \<Rightarrow> cfg_dict \<Rightarrow> (string \<Rightarrow> nat \<Rightarrow> string) \<Rightarrow> cfg_dict
     \<Rightarrow> py_error + cfg \<times> cfg \<times> fs_op list" where
  "setup_scan_config env project_dir name grid scan_config_overrides model_name_fmt model_overrides =
     (let scan_params = flatten env grid in
      bind_err
        (case scan_params of
           [] \<Rightarrow> Inl (IndexError ''list index out of range'')
         | (_, p_vals) # _ \<Rightarrow> Inr (length p_vals)) (\<lambda>n_models.
      bind_err
        (mapM_err
           (\<lambda>i. bind_err (model_overrides_at scan_params i)
                  (\<lambda>ov. Inr (model_name_fmt name i, CDict ov)))
           [0..<n_models]) (\<lambda>items.
      let config = CDict (dict_set ''models'' (CDict (dict_of items)) [(''models'', CNull)]);
          model_config = recursive_update env (base_model_config env) (deepen env model_overrides)
      in
      bind_err (dict_get model_config ''fit'') (\<lambda>fit.
      bind_err (cfg_get fit ''type'') (\<lambda>fit_type.
      if fit_type \<noteq> CStr ''standard''
      then Inl (ValueError ''Scan only supports standard fit type for base model.'')
      else
        (let scan_config = recursive_update env (split_defaults env) (deepen env scan_config_overrides);
             new_fit = dict_of ([(''type'', CStr ''split'')] @ scan_config @ [(''em'', fit)]);
             model_config' = CDict (dict_set ''fit'' (CDict new_fit) model_config)
         in Inr (config, model_config',
                 ensure_dirs project_dir
                   @ [Mkdir (scan_dir project_dir name),
                      Save (scan_dir project_dir name @ ''/scan.yml'') config,
                      Save (scan_dir project_dir name @ ''/base_model.yml'') model_config'])))))))"

section \<open>Theorems\<close>

lemma bind_err_simps [simp]:
  "bind_err (Inl e) f = Inl e"
  "bind_err (Inr v) f = f v"
  by (simp_all add: bind_err_def)

subsection \<open>C7\<close>

text \<open>
  C7. For every \<open>x\<close>, \<open>y\<close> and \<open>cov\<close>, \<open>sq_mahalanobis(x, y, cov=cov)\<close> returns what
  \<open>sq_mahalanobis(x, y, cov_inv=inverse(cov))\<close> returns, and with both \<open>cov\<close> and
  \<open>cov_inv\<close> absent the call on two vectors of one length fails with the assertion's
  error.
\<close>

theorem sq_mahalanobis_cov_or_inverse:
  "sq_mahalanobis linv x y (Some cov) None = sq_mahalanobis linv x y None (Some (linv cov))
   \<and> (length x = length y \<longrightarrow>
        sq_mahalanobis linv x y None None
          = Inl (AssertionError ''One of `cov` or `cov_inv` required.''))"
  by (simp add: sq_mahalanobis_def vsub_def)

theorem sq_mahalanobis_cov_or_inverse_witness:
  "length [3, 4 :: int] = length [0, 0 :: int]
   \<and> sq_mahalanobis (\<lambda>m. m) [3, 4 :: int] [0, 0] (Some [[1, 0], [0, 1]]) None = Inr 25
   \<and> sq_mahalanobis (\<lambda>m. m) [3, 4 :: int] [0, 0] None (Some [[1, 0], [0, 1]]) = Inr 25
   \<and> sq_mahalanobis (\<lambda>m. m) [3, 4 :: int] [0, 0] None None
       = Inl (AssertionError ''One of `cov` or `cov_inv` required.'')"
  using sq_mahalanobis_cov_or_inverse [of "\<lambda>m. m" "[3, 4 :: int]" "[0, 0]" "[[1, 0], [0, 1]]"]
  by (simp add: sq_mahalanobis_def vsub_def matmul_def is_matrix_def ncols_def dot_def
      column_def)

subsection \<open>C4\<close>

lemma length_three: "length xs = 3 \<Longrightarrow> \<exists>a b c. xs = [a, b, c]"
  by (cases xs; simp; cases "tl xs"; simp; cases "tl (tl xs)"; auto)

text \<open>
  On a scale with three rows and three columns the code returns the matrix of the
  specification's entries.
\<close>

lemma variance_three_by_three:
  assumes "is_matrix 3 3 S"
  shows "variance df (Mat S)
           = Inr (Mat (map (\<lambda>i. map (\<lambda>j. variance_entry df S i j) [0..<3]) [0..<3]))"
proof -
  from assms obtain r1 r2 r3 where S: "S = [r1, r2, r3]"
    using length_three [of S] by (auto simp: is_matrix_def)
  with assms obtain a1 a2 a3 b1 b2 b3 c1 c2 c3
    where r: "r1 = [a1, a2, a3]" "r2 = [b1, b2, b3]" "r3 = [c1, c2, c3]"
    using length_three [of r1] length_three [of r2] length_three [of r3]
    by (auto simp: is_matrix_def)
  show ?thesis
    unfolding S r
    by (simp add: variance_def single_variance_def mmap_def ncols_def broadcast2_def
        bcast_dim_def gather_def diag_def variance_entry_def bget_def upt_rec numeral_eq_Suc)
qed

text \<open>
  On a scale with one row and one column the code returns three rows of three columns,
  each entry the specification's entry \<open>(0, 0)\<close>.
\<close>

lemma variance_one_by_one:
  "variance df (Mat [[s]]) = Inr (Mat (replicate 3 (replicate 3 (variance_entry df [[s]] 0 0))))"
  by (simp add: variance_def single_variance_def mmap_def ncols_def broadcast2_def
      bcast_dim_def gather_def diag_def variance_entry_def bget_def upt_rec numeral_eq_Suc)

text \<open>With two leading batch axes the assertion \<open>scale.ndim == 2\<close> fails under \<open>vmap\<close>.\<close>

lemma variance_two_batch_axes:
  "variance df (Stack (Stack ms # rest)) = Inl (AssertionError [])"
  by (simp add: variance_def)

text \<open>
  C4 (the code departs from the claim). The claim gives, for any \<open>k\<close>, the \<open>k\<times>k\<close>
  matrix of entries \<open>variance_entry\<close>. For the 2\<times>2 identity scale and \<open>df = 10\<close>
  the code raises instead: \<open>rows\<close> has shape (2, 3), and multiplying it with an array of
  shape (2, 2) is refused.
\<close>

theorem variance_two_by_two_raises:
  "variance 10 (Mat [[1, 0], [0, 1]]) = Inl (TypeError ''incompatible shapes for broadcasting'')"
  by (simp add: variance_def single_variance_def mmap_def ncols_def broadcast2_def
      bcast_dim_def gather_def diag_def)

subsection \<open>C5\<close>

text \<open>
  With as many rows as \<open>max_pts\<close> the rows handed to the fit are the permutation's
  rearrangement of the dataset, whatever permutation the library draws.
\<close>

lemma pcs_subsample_equal_size:
  "pcs_subsample (\<lambda>seed n. [1, 0]) \<lparr>max_pts = Some 2, subset_seed = 823\<rparr> [r0, r1] = Inr [r1, r0]"
  by (simp add: pcs_subsample_def jr_choice_def)

lemma pcs_subsample_unset:
  "pcs_subsample permutation \<lparr>max_pts = None, subset_seed = seed\<rparr> rows = Inr rows"
  by (simp add: pcs_subsample_def)

text \<open>
  C5 (the code departs from the claim). The claim says that a dataset with at most
  \<open>max_pts\<close> rows is used unchanged and calibration succeeds. The code draws
  \<open>max_pts\<close> indices without replacement whenever \<open>max_pts\<close> is set: with two rows and
  \<open>max_pts = 3\<close> the draw raises, for every permutation and every fit.
\<close>

theorem pcs_calibrate_small_dataset_raises:
  "pcs_calibrate permutation fit_with_center \<lparr>max_pts = Some 3, subset_seed = 823\<rparr> [r0, r1]
     = Inl (ValueError ''Cannot take a larger sample than population when replace=False'')"
  by (simp add: pcs_calibrate_def pcs_subsample_def jr_choice_def)

subsection \<open>C8\<close>

text \<open>
  A style that neither the library nor the style-sheet directory knows: \<open>set_style\<close>
  applies \<open>default\<close> last and logs one warning, the same text for every style.
\<close>

lemma set_style_fallback:
  assumes "\<not> library_has env style" and "style \<notin> set (stylesheets env)"
  shows "warnings (snd (set_style env style st)) = warnings st @ [style_warning]"
    and "applied (snd (set_style env style st)) = applied st @ [Library ''default'']"
  using assms by (auto simp: set_style_def try_style_def Let_def split: option.splits)

text \<open>
  C8 (the code departs from the claim). The claim says that the warning names the
  requested style. For the unknown style \<open>solarized\<close> the code falls back to \<open>default\<close>
  and logs the literal text \<open>style_warning\<close>, in which \<open>solarized\<close> does not occur.
\<close>

theorem set_style_warning_omits_style:
  "set_style
     \<lparr>mpl_library = [''ggplot''], stylesheets = [''vscode_dark''],
      color_sets = [(''default'', 0 :: nat), (''vscode_dark'', 1)],
      sns_contexts = [''paper'', ''notebook'', ''talk'', ''poster'']\<rparr>
     ''solarized''
     \<lparr>applied = [], active = None, sns_context = None, warnings = []\<rparr>
   = (None, \<lparr>applied = [Library ''default''], active = Some 0, sns_context = None,
             warnings = [style_warning]\<rparr>)
   \<and> \<not> sublist ''solarized'' style_warning"
  by (simp add: set_style_def try_style_def library_has_def style_warning_def
      sublist_Cons_right prefix_Cons)

subsection \<open>C10\<close>

text \<open>
  C10. For a style name that the registry \<open>color_sets\<close> does not hold (and a context
  that \<open>sns.set_context\<close> accepts), \<open>init_nb\<close> raises a key error. When the registry
  holds \<open>default\<close>, the error is for the requested name and is raised after
  \<open>set_style\<close> has fallen back: \<open>default\<close> is the style applied last, its color set is
  active, and the warning is logged.
\<close>

theorem init_nb_unregistered_style:
  assumes "map_of (color_sets env) style = None"
    and "context \<in> set (sns_contexts env)"
  shows "fst (init_nb env plot_finalizer plot_dir style context kws st)
           = Inl (KeyError (if map_of (color_sets env) ''default'' = None
                            then ''default'' else style))
         \<and> (\<forall>c. map_of (color_sets env) ''default'' = Some c \<longrightarrow>
               active (snd (init_nb env plot_finalizer plot_dir style context kws st)) = Some c
             \<and> last (applied (snd (init_nb env plot_finalizer plot_dir style context kws st)))
                 = Library ''default''
             \<and> warnings (snd (init_nb env plot_finalizer plot_dir style context kws st))
                 = warnings st @ [style_warning])"
  using assms
  by (auto simp: init_nb_def set_style_def try_style_def Let_def split: option.splits)

theorem init_nb_unregistered_style_witness:
  "map_of (color_sets
      \<lparr>mpl_library = [''ggplot''], stylesheets = [''vscode_dark''],
       color_sets = [(''default'', 0 :: nat), (''vscode_dark'', 1)],
       sns_contexts = [''paper'', ''notebook'', ''talk'', ''poster'']\<rparr>) ''ggplot'' = None
   \<and> ''paper'' \<in> set [''paper'', ''notebook'', ''talk'', ''poster'']
   \<and> init_nb
       \<lparr>mpl_library = [''ggplot''], stylesheets = [''vscode_dark''],
        color_sets = [(''default'', 0 :: nat), (''vscode_dark'', 1)],
        sns_contexts = [''paper'', ''notebook'', ''talk'', ''poster'']\<rparr>
       (\<lambda>dir kws. dir) ''plots'' ''ggplot'' ''paper'' ()
       \<lparr>applied = [], active = None, sns_context = None, warnings = []\<rparr>
     = (Inl (KeyError ''ggplot''),
        \<lparr>applied = [Library ''ggplot'', Library ''default''], active = Some 0,
         sns_context = Some ''paper'', warnings = [style_warning]\<rparr>)"
  using init_nb_unregistered_style
    [of "\<lparr>mpl_library = [''ggplot''], stylesheets = [''vscode_dark''],
          color_sets = [(''default'', 0 :: nat), (''vscode_dark'', 1)],
          sns_contexts = [''paper'', ''notebook'', ''talk'', ''poster'']\<rparr>"
        "''ggplot''" "''paper''" "\<lambda>dir kws. dir" "''plots''" "()"
        "\<lparr>applied = [], active = None, sns_context = None, warnings = []\<rparr>"]
  by (simp add: init_nb_def set_style_def try_style_def library_has_def)

subsection \<open>The array trace: writing a slot\<close>

lemma mapM_err_Inr:
  "(\<And>x. x \<in> set xs \<Longrightarrow> f x = Inr (g x)) \<Longrightarrow> mapM_err f xs = Inr (map g xs)"
  by (induction xs) auto

lemma mapM_err_first_Inl:
  "i < length xs \<Longrightarrow> f (xs ! i) = Inl e \<Longrightarrow>
     \<exists>j\<le>i. \<exists>e'. mapM_err f xs = Inl e' \<and> f (xs ! j) = Inl e'
        \<and> (\<forall>k<j. \<exists>y. f (xs ! k) = Inr y)"
proof (induction xs arbitrary: i)
  case Nil then show ?case by simp
next
  case (Cons x xs)
  show ?case
  proof (cases "f x")
    case (Inl e0)
    then have "mapM_err f (x # xs) = Inl e0 \<and> f ((x # xs) ! 0) = Inl e0" by simp
    then show ?thesis by blast
  next
    case (Inr y)
    with Cons.prems obtain k where k: "i = Suc k" by (cases i) auto
    with Cons.prems have "k < length xs" "f (xs ! k) = Inl e" by auto
    from Cons.IH [OF this] obtain j e'
      where j: "j \<le> k" "mapM_err f xs = Inl e'" "f (xs ! j) = Inl e'"
        "\<forall>m<j. \<exists>y. f (xs ! m) = Inr y"
      by blast
    have "\<forall>m<Suc j. \<exists>y. f ((x # xs) ! m) = Inr y"
      using j(4) Inr by (auto simp: less_Suc_eq_0_disj)
    with j have "Suc j \<le> i \<and> mapM_err f (x # xs) = Inl e' \<and> f ((x # xs) ! Suc j) = Inl e'
        \<and> (\<forall>m<Suc j. \<exists>y. f ((x # xs) ! m) = Inr y)"
      using Inr k by simp
    then show ?thesis by blast
  qed
qed

lemma slot_bounds:
  assumes "k < n"
  shows "k * sz \<le> n * sz" and "k * sz + sz \<le> n * (sz::nat)"
proof -
  show "k * sz \<le> n * sz" using assms by simp
  have "Suc k * sz \<le> n * sz" using assms by (intro mult_le_mono1) simp
  then show "k * sz + sz \<le> n * sz" by simp
qed

lemma splice_length:
  assumes "k < n" and "length e = n * sz" and "length l = sz"
  shows "length (take (k * sz) e @ l @ drop (sz + k * sz) e) = n * sz"
  using slot_bounds [OF assms(1), of sz] assms(2,3) by simp

lemma splice_take:
  assumes "k < n" and "length e = n * sz"
  shows "take (k * sz) (take (k * sz) e @ l @ rest) = take (k * sz) e"
  using slot_bounds [OF assms(1), of sz] assms(2) by simp

lemma splice_drop:
  assumes "k < n" and "length e = n * sz" and "length l = sz"
  shows "drop (sz + k * sz) (take (k * sz) e @ l @ rest) = rest"
  using slot_bounds [OF assms(1), of sz] assms(2,3) by simp

lemma splice_slot:
  assumes "k < n" and "length e = n * sz" and "length l = sz"
  shows "take sz (drop (k * sz) (take (k * sz) e @ l @ rest)) = l"
  using slot_bounds [OF assms(1), of sz] assms(2,3) by simp

lemma slot_of_less: "slot_of n step = Some k \<Longrightarrow> k < n"
  by (auto simp: slot_of_def Let_def split: if_splits)

lemma slot_of_in_range: "0 \<le> step \<Longrightarrow> step < int n \<Longrightarrow> slot_of n step = Some (nat step)"
  by (simp add: slot_of_def)

lemma slot_of_dropped: "step < - int n \<or> int n \<le> step \<Longrightarrow> slot_of n step = None"
  by (auto simp: slot_of_def Let_def)

lemma set_slot_shape [simp]: "shape (set_slot cast b step l) = shape b"
  by (simp add: set_slot_def split: list.splits option.splits)

lemma set_slot_length:
  assumes "buffer_ok n b" and "leaf_fits b l"
  shows "length (elems (set_slot cast b step l)) = length (elems b)"
proof -
  from assms(1) obtain s where b: "shape b = n # s" "length (elems b) = n * prod_list s"
    by (auto simp: buffer_ok_def split: list.splits)
  with assms(2) have l: "length (map cast (elems l)) = prod_list s"
    by (simp add: leaf_fits_def)
  show ?thesis
  proof (cases "slot_of n step")
    case None
    then show ?thesis by (simp add: set_slot_def b)
  next
    case (Some k)
    from splice_length [OF slot_of_less [OF Some] b(2) l] show ?thesis
      by (simp add: set_slot_def b Some)
  qed
qed

lemma set_slot_buffer_ok:
  "buffer_ok n b \<Longrightarrow> leaf_fits b l \<Longrightarrow> buffer_ok n (set_slot cast b step l)"
  using set_slot_length [of n b l cast step] by (auto simp: buffer_ok_def split: list.splits)

lemma set_slot_overwrite:
  assumes "buffer_ok n b" and "leaf_fits b l1"
  shows "set_slot cast (set_slot cast b step l1) step l2 = set_slot cast b step l2"
proof -
  from assms(1) obtain s where b: "shape b = n # s" "length (elems b) = n * prod_list s"
    by (auto simp: buffer_ok_def split: list.splits)
  with assms(2) have l: "length (map cast (elems l1)) = prod_list s"
    by (simp add: leaf_fits_def)
  show ?thesis
  proof (cases "slot_of n step")
    case None
    then show ?thesis by (simp add: set_slot_def b)
  next
    case (Some k)
    note k = slot_of_less [OF Some]
    show ?thesis
      by (simp add: set_slot_def b Some splice_take [OF k b(2)] splice_drop [OF k b(2) l]
          del: append_assoc take_append drop_append)
  qed
qed

lemma set_slot_dropped:
  assumes "buffer_ok n b" and "step < - int n \<or> int n \<le> step"
  shows "set_slot cast b step l = b"
proof -
  from assms(1) obtain s where b: "shape b = n # s"
    by (auto simp: buffer_ok_def split: list.splits)
  show ?thesis by (simp add: set_slot_def b slot_of_dropped [OF assms(2)])
qed

lemma int32_index_ok: "- (2 ^ 31) \<le> step \<Longrightarrow> step < 2 ^ 31 \<Longrightarrow> int32_index step = Inr step"
  by (simp add: int32_index_def)

lemma index_shape_ok:
  assumes "buffer_ok n b" and "0 < n" and "- (2 ^ 31) \<le> step" and "step < 2 ^ 31"
  shows "index_shape b step = Inr (tl (shape b))"
proof -
  from assms(1) obtain s where b: "shape b = n # s"
    by (auto simp: buffer_ok_def split: list.splits)
  show ?thesis
    using assms(2) by (simp add: index_shape_def index_read_def int32_index_ok [OF assms(3,4)] b Let_def)
qed

lemma at_set_ok:
  assumes "buffer_ok n b" and "- (2 ^ 31) \<le> step" and "step < 2 ^ 31"
  shows "at_set cast b step l = Inr (set_slot cast b step l)"
proof -
  from assms(1) obtain s where b: "shape b = n # s"
    by (auto simp: buffer_ok_def split: list.splits)
  show ?thesis by (simp add: at_set_def int32_index_ok [OF assms(2,3)] b)
qed

lemma record_leaf_ok:
  assumes "buffer_ok n b" and "0 < n" and "- (2 ^ 31) \<le> step" and "step < 2 ^ 31"
  shows "record_leaf exec_malformed cast step pth b l
           = (if shape l = tl (shape b) then Inr (set_slot cast b step l)
              else Inl (raise_mismatch exec_malformed pth (shape l) (tl (shape b))))"
  by (simp add: record_leaf_def index_shape_ok [OF assms] at_set_ok [OF assms(1,3,4)])

lemma index_read_set_slot:
  assumes "buffer_ok n b" and "leaf_fits b l" and "0 \<le> step" and "step < int n"
    and "step < 2 ^ 31"
  shows "index_read (set_slot cast b step l) step = Inr \<lparr>shape = shape l, elems = map cast (elems l)\<rparr>"
proof -
  from assms(1) obtain s where b: "shape b = n # s" "length (elems b) = n * prod_list s"
    by (auto simp: buffer_ok_def split: list.splits)
  with assms(2) have l: "length (map cast (elems l)) = prod_list s" "shape l = s"
    by (simp_all add: leaf_fits_def)
  have k: "nat step < n" using assms(3,4) by auto
  have m: "nat (max 0 (min step (int n - 1))) = nat step" using assms(3,4) by auto
  have i: "int32_index step = Inr step" using assms(3,5) by (simp add: int32_index_def)
  have n: "n \<noteq> 0" using assms(3,4) by auto
  show ?thesis
    using assms(3,4) l(2) n
    by (simp add: index_read_def set_slot_def b slot_of_in_range m Let_def i
        splice_slot [OF k b(2) l(1)] del: append_assoc take_append drop_append)
qed

lemma write_all_simps [simp]:
  "write_all cast step [] r = []"
  "write_all cast step t [] = []"
  "write_all cast step ((p, b) # t) ((q, l) # r) = (p, set_slot cast b step l) # write_all cast step t r"
  by (simp_all add: write_all_def)

lemma leaf_fits_set_slot [simp]: "leaf_fits (set_slot cast b step l) l' = leaf_fits b l'"
  by (simp add: leaf_fits_def)

lemma write_all_paths:
  "length r = length t \<Longrightarrow> map fst (write_all cast step t r) = map fst t"
  by (induction r t rule: list_induct2) auto

lemma write_all_shapes:
  "length r = length t \<Longrightarrow>
   map (\<lambda>(pth, b). (pth, shape b)) (write_all cast step t r) = map (\<lambda>(pth, b). (pth, shape b)) t"
  by (induction r t rule: list_induct2) auto

lemma write_all_buffers:
  "list_all (\<lambda>(pth, b). buffer_ok n b) t \<Longrightarrow>
   list_all2 (\<lambda>(pth, b) (pth', leaf). leaf_fits b leaf) t r \<Longrightarrow>
   list_all (\<lambda>(pth, b). buffer_ok n b) (write_all cast step t r)"
proof (induction t arbitrary: r)
  case Nil then show ?case by simp
next
  case (Cons x t)
  then show ?case by (cases r) (auto simp: set_slot_buffer_ok)
qed

lemma write_all_fits:
  "length r1 = length t \<Longrightarrow>
   list_all2 (\<lambda>(pth, b) (pth', leaf). leaf_fits b leaf) t r2 \<Longrightarrow>
   list_all2 (\<lambda>(pth, b) (pth', leaf). leaf_fits b leaf) (write_all cast step t r1) r2"
proof (induction t arbitrary: r1 r2)
  case Nil then show ?case by simp
next
  case (Cons x t)
  then show ?case by (cases r1; cases r2) auto
qed

lemma write_all_overwrite:
  "list_all (\<lambda>(pth, b). buffer_ok n b) t \<Longrightarrow>
   list_all2 (\<lambda>(pth, b) (pth', leaf). leaf_fits b leaf) t r1 \<Longrightarrow>
   length r2 = length t \<Longrightarrow>
   write_all cast step (write_all cast step t r1) r2 = write_all cast step t r2"
proof (induction t arbitrary: r1 r2)
  case Nil then show ?case by simp
next
  case (Cons x t)
  then show ?case by (cases r1; cases r2) (auto simp: set_slot_overwrite)
qed

lemma write_all_dropped:
  "list_all (\<lambda>(pth, b). buffer_ok n b) t \<Longrightarrow> length r = length t \<Longrightarrow>
   step < - int n \<or> int n \<le> step \<Longrightarrow> write_all cast step t r = t"
proof (induction t arbitrary: r)
  case Nil then show ?case by simp
next
  case (Cons x t)
  then show ?case by (cases r) (auto simp: set_slot_dropped)
qed

lemma read_write_all:
  "list_all (\<lambda>(pth, b). buffer_ok n b) t \<Longrightarrow>
   list_all2 (\<lambda>(pth, b) (pth', leaf). leaf_fits b leaf) t r \<Longrightarrow>
   map fst r = map fst t \<Longrightarrow> 0 \<le> step \<Longrightarrow> step < int n \<Longrightarrow> step < 2 ^ 31 \<Longrightarrow>
   mapM_err (\<lambda>(pth, arr). bind_err (index_read arr step) (\<lambda>v. Inr (pth, v)))
       (write_all cast step t r)
     = Inr (cast_report cast r)"
proof (induction t arbitrary: r)
  case Nil then show ?case by (simp add: cast_report_def)
next
  case (Cons x t)
  then show ?case by (cases r) (auto simp: index_read_set_slot cast_report_def)
qed

lemma record_report_fits:
  assumes "tree tr = Some t" and "initialized tr" and "report_fits tr r"
    and "0 < n_steps tr" and "- (2 ^ 31) \<le> step" and "step < 2 ^ 31"
  shows "record_report exec_malformed cast tr r step
           = Inr (tr\<lparr>tree := Some (write_all cast step t r)\<rparr>)"
proof -
  from assms(1,3) have p: "map fst r = map fst t"
    and f: "list_all2 (\<lambda>(pth, b) (pth', leaf). leaf_fits b leaf) t r"
    by (simp_all add: report_fits_def)
  from assms(1,2) have bufs: "list_all (\<lambda>(pth, b). buffer_ok (n_steps tr) b) t"
    by (simp add: initialized_def)
  have "mapM_err (\<lambda>((pth, a), (_, b)).
            bind_err (record_leaf exec_malformed cast step pth a b) (\<lambda>v. Inr (pth, v)))
          (zip t r)
        = Inr (map (\<lambda>((pth, b), (pth', l)). (pth, set_slot cast b step l)) (zip t r))"
  proof (rule mapM_err_Inr)
    fix x assume x: "x \<in> set (zip t r)"
    obtain pth b pth' l where xe: "x = ((pth, b), (pth', l))" by (metis surj_pair)
    from x xe have "(pth, b) \<in> set t" by (auto dest: set_zip_leftD)
    with bufs have ok: "buffer_ok (n_steps tr) b" by (auto simp: list_all_iff)
    from x xe f have "leaf_fits b l" by (auto simp: list_all2_iff)
    then have "shape l = tl (shape b)" by (simp add: leaf_fits_def)
    then show "(case x of (x, xa) \<Rightarrow> (case x of (pth, a) \<Rightarrow> \<lambda>(uu, b).
           bind_err (record_leaf exec_malformed cast step pth a b) (\<lambda>v. Inr (pth, v))) xa)
       = Inr (case x of (x, xa) \<Rightarrow> (case x of (pth, b) \<Rightarrow> \<lambda>(pth', l). (pth, set_slot cast b step l)) xa)"
      by (simp add: xe record_leaf_ok [OF ok assms(4,5,6)])
  qed
  then show ?thesis
    using assms(1) p by (simp add: record_report_def tree_map_with_path_def write_all_def)
qed

lemma record_report_mismatch:
  fixes tr :: "'v::zero ArrayTrace" and r :: "'r pytree"
  assumes "tree tr = Some t" and "initialized tr" and "map fst r = map fst t"
    and "i < length t" and "shape (snd (r ! i)) \<noteq> tl (shape (snd (t ! i)))"
    and "0 < n_steps tr" and "- (2 ^ 31) \<le> step" and "step < 2 ^ 31"
  shows "\<exists>j\<le>i. shape (snd (r ! j)) \<noteq> tl (shape (snd (t ! j)))
           \<and> (\<forall>k<j. shape (snd (r ! k)) = tl (shape (snd (t ! k))))
           \<and> record_report exec_malformed cast tr r step
               = Inl (raise_mismatch exec_malformed (fst (t ! j)) (shape (snd (r ! j)))
                        (tl (shape (snd (t ! j)))))"
proof -
  define F where "F = (\<lambda>x :: (tree_key list \<times> 'v array) \<times> (tree_key list \<times> 'r array).
     bind_err (record_leaf exec_malformed cast step (fst (fst x)) (snd (fst x)) (snd (snd x)))
       (\<lambda>v. Inr (fst (fst x), v)))"
  have len: "length r = length t" using assms(3) by (metis length_map)
  from assms(1,2) have bufs: "list_all (\<lambda>(pth, b). buffer_ok (n_steps tr) b) t"
    by (simp add: initialized_def)
  have ok: "buffer_ok (n_steps tr) (snd (t ! k))" if "k < length t" for k
  proof -
    from that have "t ! k \<in> set t" by simp
    with bufs show ?thesis by (cases "t ! k") (auto simp: list_all_iff)
  qed
  have F_eq: "F (zip t r ! k)
      = (if shape (snd (r ! k)) = tl (shape (snd (t ! k)))
         then Inr (fst (t ! k), set_slot cast (snd (t ! k)) step (snd (r ! k)))
         else Inl (raise_mismatch exec_malformed (fst (t ! k)) (shape (snd (r ! k)))
                     (tl (shape (snd (t ! k))))))"
    if "k < length t" for k
    using that len by (simp add: F_def record_leaf_ok [OF ok [OF that] assms(6,7,8)])
  have i: "i < length (zip t r)" using assms(4) len by simp
  have "F (zip t r ! i)
      = Inl (raise_mismatch exec_malformed (fst (t ! i)) (shape (snd (r ! i)))
               (tl (shape (snd (t ! i)))))"
    using F_eq [OF assms(4)] assms(5) by simp
  from mapM_err_first_Inl [of i "zip t r" F, OF i this] obtain j e'
    where j: "j \<le> i" "mapM_err F (zip t r) = Inl e'" "F (zip t r ! j) = Inl e'"
      "\<forall>k<j. \<exists>y. F (zip t r ! k) = Inr y"
    by blast
  have jt: "j < length t" using j(1) assms(4) by simp
  from j(3) F_eq [OF jt] have e': "shape (snd (r ! j)) \<noteq> tl (shape (snd (t ! j)))"
    "e' = raise_mismatch exec_malformed (fst (t ! j)) (shape (snd (r ! j)))
            (tl (shape (snd (t ! j))))"
    by (auto split: if_splits)
  have before: "\<forall>k<j. shape (snd (r ! k)) = tl (shape (snd (t ! k)))"
  proof (intro allI impI)
    fix k assume k: "k < j"
    then have kt: "k < length t" using jt by simp
    from j(4) k obtain y where "F (zip t r ! k) = Inr y" by blast
    with F_eq [OF kt] show "shape (snd (r ! k)) = tl (shape (snd (t ! k)))"
      by (auto split: if_splits)
  qed
  have "(\<lambda>((pth, a), (_, b)).
          bind_err (record_leaf exec_malformed cast step pth a b) (\<lambda>v. Inr (pth, v))) = F"
    by (auto simp: F_def fun_eq_iff)
  then have "record_report exec_malformed cast tr r step = Inl e'"
    using assms(1,3) j(2) by (simp add: record_report_def tree_map_with_path_def)
  with e' before j(1) show ?thesis by blast
qed

lemma raise_mismatch_plain:
  "\<not> list_ex key_has_quote pth \<Longrightarrow>
   raise_mismatch exec_malformed pth offered expected = ShapeMismatch pth offered expected"
  by (simp add: raise_mismatch_def)

text \<open>
  The step is converted before anything else is looked at: outside the 32-bit range
  every record on an initialized trace raises, whatever the report's shapes.
\<close>

lemma record_leaf_overflow:
  "step < - (2 ^ 31) \<or> 2 ^ 31 \<le> step \<Longrightarrow>
   record_leaf exec_malformed cast step pth b l
     = Inl (OverflowError ''Python int too large to convert to int32'')"
  by (auto simp: record_leaf_def index_shape_def index_read_def int32_index_def)

text \<open>A trace of no steps has nothing to index: every record raises.\<close>

lemma record_leaf_no_steps:
  "buffer_ok 0 b \<Longrightarrow> - (2 ^ 31) \<le> step \<Longrightarrow> step < 2 ^ 31 \<Longrightarrow>
   record_leaf exec_malformed cast step pth b l
     = Inl (IndexError ''index is out of bounds for axis 0 with size 0'')"
  by (auto simp: record_leaf_def index_shape_def index_read_def int32_index_def buffer_ok_def
      split: list.splits)

subsection \<open>C6\<close>

text \<open>
  C6 (amended). On an initialized trace, two records for one step in
  \<open>0 ..< n_steps\<close> (and below \<open>2^31\<close>) with reports that fit the trace leave the
  trace that the second record alone leaves, and the slot then reads as the second
  report, converted to the element type of the trace. On an initialized trace of at
  least one step whose paths hold no quote character, for a step in the 32-bit range,
  a report with the trace's structure in which a leaf has another shape than a slot of
  its buffer fails: the error carries the path, the offered shape and the expected
  shape of the first such leaf.
\<close>

theorem record_overwrites_and_rejects_shapes:
  fixes tr :: "'v::zero ArrayTrace" and r r1 r2 :: "'r pytree"
  assumes "initialized tr"
  shows "(report_fits tr r1 \<and> report_fits tr r2 \<and> 0 \<le> step \<and> step < int (n_steps tr)
            \<and> step < 2 ^ 31 \<longrightarrow>
           (\<exists>tr1 tr2. record_report exec_malformed cast tr r1 step = Inr tr1
              \<and> record_report exec_malformed cast tr1 r2 step = Inr tr2
              \<and> record_report exec_malformed cast tr r2 step = Inr tr2
              \<and> getitem tr2 step = Inr (Some (cast_report cast r2))))
       \<and> (\<forall>t i. tree tr = Some t \<and> map fst r = map fst t \<and> i < length t
                \<and> shape (snd (r ! i)) \<noteq> tl (shape (snd (t ! i)))
                \<and> 0 < n_steps tr \<and> - (2 ^ 31) \<le> step' \<and> step' < 2 ^ 31
                \<and> list_all (\<lambda>(pth, b). list_all (\<lambda>k. \<not> key_has_quote k) pth) t \<longrightarrow>
            (\<exists>j\<le>i. shape (snd (r ! j)) \<noteq> tl (shape (snd (t ! j)))
               \<and> (\<forall>k<j. shape (snd (r ! k)) = tl (shape (snd (t ! k))))
               \<and> record_report exec_malformed cast tr r step'
                   = Inl (ShapeMismatch (fst (t ! j)) (shape (snd (r ! j)))
                            (tl (shape (snd (t ! j)))))))"
proof (intro conjI impI allI)
  assume a: "report_fits tr r1 \<and> report_fits tr r2 \<and> 0 \<le> step \<and> step < int (n_steps tr)
      \<and> step < 2 ^ 31"
  from assms obtain t where t: "tree tr = Some t"
    by (auto simp: initialized_def split: option.splits)
  from assms t have bufs: "list_all (\<lambda>(pth, b). buffer_ok (n_steps tr) b) t"
    by (simp add: initialized_def)
  from a t have p1: "map fst r1 = map fst t" and p2: "map fst r2 = map fst t"
    and f1: "list_all2 (\<lambda>(pth, b) (pth', leaf). leaf_fits b leaf) t r1"
    and f2: "list_all2 (\<lambda>(pth, b) (pth', leaf). leaf_fits b leaf) t r2"
    by (simp_all add: report_fits_def)
  have l1: "length r1 = length t" and l2: "length r2 = length t"
    using p1 p2 by (metis length_map)+
  from a have n: "0 < n_steps tr" and lo: "- (2 ^ 31) \<le> step" and hi: "step < 2 ^ 31"
    by auto
  define tr1 where "tr1 = tr\<lparr>tree := Some (write_all cast step t r1)\<rparr>"
  define tr2 where "tr2 = tr\<lparr>tree := Some (write_all cast step t r2)\<rparr>"
  have s1: "record_report exec_malformed cast tr r1 step = Inr tr1"
    using record_report_fits [OF t assms _ n lo hi, of r1] a by (simp add: tr1_def)
  have s2: "record_report exec_malformed cast tr r2 step = Inr tr2"
    using record_report_fits [OF t assms _ n lo hi, of r2] a by (simp add: tr2_def)
  have t1: "tree tr1 = Some (write_all cast step t r1)" by (simp add: tr1_def)
  have i1: "initialized tr1"
    using write_all_buffers [OF bufs f1] by (simp add: initialized_def tr1_def)
  have n1: "0 < n_steps tr1" using n by (simp add: tr1_def)
  have "report_fits tr1 r2"
    using p2 write_all_paths [OF l1] write_all_fits [OF l1 f2]
    by (simp add: report_fits_def t1)
  from record_report_fits [OF t1 i1 this n1 lo hi]
  have s12: "record_report exec_malformed cast tr1 r2 step = Inr tr2"
    by (simp add: tr1_def tr2_def write_all_overwrite [OF bufs f1 l2])
  have "getitem tr2 step = Inr (Some (cast_report cast r2))"
    using read_write_all [OF bufs f2 p2] a by (simp add: getitem_def tr2_def)
  with s1 s12 s2
  show "\<exists>tr1 tr2. record_report exec_malformed cast tr r1 step = Inr tr1
          \<and> record_report exec_malformed cast tr1 r2 step = Inr tr2
          \<and> record_report exec_malformed cast tr r2 step = Inr tr2
          \<and> getitem tr2 step = Inr (Some (cast_report cast r2))"
    by blast
next
  fix t i
  assume a: "tree tr = Some t \<and> map fst r = map fst t \<and> i < length t
      \<and> shape (snd (r ! i)) \<noteq> tl (shape (snd (t ! i)))
      \<and> 0 < n_steps tr \<and> - (2 ^ 31) \<le> step' \<and> step' < 2 ^ 31
      \<and> list_all (\<lambda>(pth, b). list_all (\<lambda>k. \<not> key_has_quote k) pth) t"
  then have "\<exists>j\<le>i. shape (snd (r ! j)) \<noteq> tl (shape (snd (t ! j)))
     \<and> (\<forall>k<j. shape (snd (r ! k)) = tl (shape (snd (t ! k))))
     \<and> record_report exec_malformed cast tr r step'
         = Inl (raise_mismatch exec_malformed (fst (t ! j)) (shape (snd (r ! j)))
                  (tl (shape (snd (t ! j)))))"
    using record_report_mismatch [of tr t r i step' exec_malformed cast] assms by blast
  then obtain j where j: "j \<le> i" "shape (snd (r ! j)) \<noteq> tl (shape (snd (t ! j)))"
      "\<forall>k<j. shape (snd (r ! k)) = tl (shape (snd (t ! k)))"
      "record_report exec_malformed cast tr r step'
         = Inl (raise_mismatch exec_malformed (fst (t ! j)) (shape (snd (r ! j)))
                  (tl (shape (snd (t ! j)))))"
    by blast
  from a j(1) have "t ! j \<in> set t" by simp
  with a have "list_all (\<lambda>k. \<not> key_has_quote k) (fst (t ! j))"
    by (cases "t ! j") (auto simp: list_all_iff)
  then have "\<not> list_ex key_has_quote (fst (t ! j))"
    by (simp add: list_all_iff list_ex_iff)
  from raise_mismatch_plain [OF this] j
  show "\<exists>j\<le>i. shape (snd (r ! j)) \<noteq> tl (shape (snd (t ! j)))
     \<and> (\<forall>k<j. shape (snd (r ! k)) = tl (shape (snd (t ! k))))
     \<and> record_report exec_malformed cast tr r step'
         = Inl (ShapeMismatch (fst (t ! j)) (shape (snd (r ! j))) (tl (shape (snd (t ! j)))))"
    by auto
qed

theorem record_overwrites_and_rejects_shapes_witness:
  "initialized \<lparr>n_steps = 2, tree = Some [([DictKey ''loss''], \<lparr>shape = [2, 2], elems = [0, 0, 0, 0 :: real]\<rparr>)]\<rparr>
   \<and> report_fits \<lparr>n_steps = 2, tree = Some [([DictKey ''loss''], \<lparr>shape = [2, 2], elems = [0, 0, 0, 0 :: real]\<rparr>)]\<rparr>
        [([DictKey ''loss''], \<lparr>shape = [2], elems = [1, 2 :: int]\<rparr>)]
   \<and> report_fits \<lparr>n_steps = 2, tree = Some [([DictKey ''loss''], \<lparr>shape = [2, 2], elems = [0, 0, 0, 0 :: real]\<rparr>)]\<rparr>
        [([DictKey ''loss''], \<lparr>shape = [2], elems = [3, 4 :: int]\<rparr>)]
   \<and> record_report (\<lambda>pth offered expected. SyntaxError ''unterminated string literal'') real_of_int
        \<lparr>n_steps = 2, tree = Some [([DictKey ''loss''], \<lparr>shape = [2, 2], elems = [0, 0, 0, 0]\<rparr>)]\<rparr>
        [([DictKey ''loss''], \<lparr>shape = [2], elems = [1, 2]\<rparr>)] 1
       = Inr \<lparr>n_steps = 2, tree = Some [([DictKey ''loss''], \<lparr>shape = [2, 2], elems = [0, 0, 1, 2]\<rparr>)]\<rparr>
   \<and> record_report (\<lambda>pth offered expected. SyntaxError ''unterminated string literal'') real_of_int
        \<lparr>n_steps = 2, tree = Some [([DictKey ''loss''], \<lparr>shape = [2, 2], elems = [0, 0, 1, 2]\<rparr>)]\<rparr>
        [([DictKey ''loss''], \<lparr>shape = [2], elems = [3, 4]\<rparr>)] 1
       = Inr \<lparr>n_steps = 2, tree = Some [([DictKey ''loss''], \<lparr>shape = [2, 2], elems = [0, 0, 3, 4]\<rparr>)]\<rparr>
   \<and> record_report (\<lambda>pth offered expected. SyntaxError ''unterminated string literal'') real_of_int
        \<lparr>n_steps = 2, tree = Some [([DictKey ''loss''], \<lparr>shape = [2, 2], elems = [0, 0, 0, 0]\<rparr>)]\<rparr>
        [([DictKey ''loss''], \<lparr>shape = [2], elems = [3, 4]\<rparr>)] 1
       = Inr \<lparr>n_steps = 2, tree = Some [([DictKey ''loss''], \<lparr>shape = [2, 2], elems = [0, 0, 3, 4]\<rparr>)]\<rparr>
   \<and> getitem \<lparr>n_steps = 2, tree = Some [([DictKey ''loss''], \<lparr>shape = [2, 2], elems = [0, 0, 3, 4 :: real]\<rparr>)]\<rparr> 1
       = Inr (Some [([DictKey ''loss''], \<lparr>shape = [2], elems = [3, 4]\<rparr>)])
   \<and> list_all (\<lambda>(pth, b). list_all (\<lambda>k. \<not> key_has_quote k) pth)
        [([DictKey ''loss''], \<lparr>shape = [2, 2], elems = [0, 0, 0, 0 :: real]\<rparr>)]
   \<and> record_report (\<lambda>pth offered expected. SyntaxError ''unterminated string literal'') real_of_int
        \<lparr>n_steps = 2, tree = Some [([DictKey ''loss''], \<lparr>shape = [2, 2], elems = [0, 0, 0, 0]\<rparr>)]\<rparr>
        [([DictKey ''loss''], \<lparr>shape = [3], elems = [5, 6, 7]\<rparr>)] 1
       = Inl (ShapeMismatch [DictKey ''loss''] [3] [2])"
  using record_overwrites_and_rejects_shapes
    [where tr = "\<lparr>n_steps = 2, tree = Some [([DictKey ''loss''], \<lparr>shape = [2, 2], elems = [0, 0, 0, 0 :: real]\<rparr>)]\<rparr>"
       and ?r1.0 = "[([DictKey ''loss''], \<lparr>shape = [2], elems = [1, 2 :: int]\<rparr>)]"
       and ?r2.0 = "[([DictKey ''loss''], \<lparr>shape = [2], elems = [3, 4]\<rparr>)]"
       and step = 1
       and r = "[([DictKey ''loss''], \<lparr>shape = [3], elems = [5, 6, 7]\<rparr>)]"
       and step' = 1
       and exec_malformed = "\<lambda>pth offered expected. SyntaxError ''unterminated string literal''"
       and cast = real_of_int]
  by (simp add: initialized_def report_fits_def buffer_ok_def leaf_fits_def index_shape_def
      record_report_def tree_map_with_path_def record_leaf_def at_set_def set_slot_def slot_of_def
      getitem_def index_read_def int32_index_def raise_mismatch_def key_has_quote_def
      cast_report_def)

text \<open>
  C6 as claimed does not hold. On the initialized trace of two steps with the buffer
  \<open>loss\<close> of shape \<open>(2, 2)\<close>, a report whose leaf has shape \<open>(3,)\<close> recorded at step
  \<open>2^31\<close> fails with the \<open>OverflowError\<close> of the index conversion, which names neither
  path nor shape. On the initialized trace of no steps the same report fails at every
  step with the \<open>IndexError\<close> of \<open>trace[step]\<close>. And when the key is \<open>a"b\<close>, the
  statement handed to \<open>exec\<close> is
  \<open>raise ValueError("Report at path (DictKey(key='a"b'),) had shape (3,) when trace was
  initialized with shape(2,)")\<close>, whose string literal ends at the key's quote: with the
  interpreter's answer to it, a \<open>SyntaxError\<close>, that is the error of \<open>record\<close>.
\<close>

theorem record_shape_mismatch_other_errors:
  "initialized \<lparr>n_steps = 2, tree = Some [([DictKey ''loss''], \<lparr>shape = [2, 2], elems = [0, 0, 0, 0 :: real]\<rparr>)]\<rparr>
   \<and> record_report (\<lambda>pth offered expected. SyntaxError ''unterminated string literal'') real_of_int
        \<lparr>n_steps = 2, tree = Some [([DictKey ''loss''], \<lparr>shape = [2, 2], elems = [0, 0, 0, 0]\<rparr>)]\<rparr>
        [([DictKey ''loss''], \<lparr>shape = [3], elems = [5, 6, 7]\<rparr>)] (2 ^ 31)
       = Inl (OverflowError ''Python int too large to convert to int32'')
   \<and> initialized \<lparr>n_steps = 0, tree = Some [([DictKey ''loss''], \<lparr>shape = [0, 2], elems = [] :: real list\<rparr>)]\<rparr>
   \<and> record_report (\<lambda>pth offered expected. SyntaxError ''unterminated string literal'') real_of_int
        \<lparr>n_steps = 0, tree = Some [([DictKey ''loss''], \<lparr>shape = [0, 2], elems = []\<rparr>)]\<rparr>
        [([DictKey ''loss''], \<lparr>shape = [3], elems = [5, 6, 7]\<rparr>)] 0
       = Inl (IndexError ''index is out of bounds for axis 0 with size 0'')
   \<and> initialized \<lparr>n_steps = 2, tree = Some [([DictKey [CHR ''a'', CHR 0x22, CHR ''b'']], \<lparr>shape = [2, 2], elems = [0, 0, 0, 0 :: real]\<rparr>)]\<rparr>
   \<and> record_report (\<lambda>pth offered expected. SyntaxError ''unterminated string literal'') real_of_int
        \<lparr>n_steps = 2, tree = Some [([DictKey [CHR ''a'', CHR 0x22, CHR ''b'']], \<lparr>shape = [2, 2], elems = [0, 0, 0, 0]\<rparr>)]\<rparr>
        [([DictKey [CHR ''a'', CHR 0x22, CHR ''b'']], \<lparr>shape = [3], elems = [5, 6, 7]\<rparr>)] 1
       = Inl (SyntaxError ''unterminated string literal'')"
  by (simp add: initialized_def buffer_ok_def index_shape_def
      record_report_def tree_map_with_path_def record_leaf_def
      index_read_def int32_index_def raise_mismatch_def key_has_quote_def)

subsection \<open>C9\<close>

text \<open>
  C9 (amended). On an initialized trace of at least one step, a record of a fitting
  report with a step outside \<open>0 ..< n_steps\<close> but in the 32-bit range raises nothing:
  the trace stays initialized with the same paths, shapes and step count, and for a
  step below \<open>- n_steps\<close> or from \<open>n_steps\<close> on the write is dropped and the trace is
  unchanged.
\<close>

theorem record_out_of_range_step:
  fixes tr :: "'v::zero ArrayTrace" and r :: "'r pytree"
  assumes "initialized tr" and "report_fits tr r"
    and "step < 0 \<or> int (n_steps tr) \<le> step"
    and "0 < n_steps tr" and "- (2 ^ 31) \<le> step" and "step < 2 ^ 31"
  shows "\<exists>tr'. record_report exec_malformed cast tr r step = Inr tr'
           \<and> n_steps tr' = n_steps tr
           \<and> initialized tr'
           \<and> map_option (map (\<lambda>(pth, b). (pth, shape b))) (tree tr')
               = map_option (map (\<lambda>(pth, b). (pth, shape b))) (tree tr)
           \<and> (step < - int (n_steps tr) \<or> int (n_steps tr) \<le> step \<longrightarrow> tr' = tr)"
proof -
  from assms(1) obtain t where t: "tree tr = Some t"
    by (auto simp: initialized_def split: option.splits)
  from assms(1) t have bufs: "list_all (\<lambda>(pth, b). buffer_ok (n_steps tr) b) t"
    by (simp add: initialized_def)
  from assms(2) t have p: "map fst r = map fst t"
    and f: "list_all2 (\<lambda>(pth, b) (pth', leaf). leaf_fits b leaf) t r"
    by (simp_all add: report_fits_def)
  have l: "length r = length t" using p by (metis length_map)
  define tr' where "tr' = tr\<lparr>tree := Some (write_all cast step t r)\<rparr>"
  have s: "record_report exec_malformed cast tr r step = Inr tr'"
    using record_report_fits [OF t assms(1,2,4,5,6)] by (simp add: tr'_def)
  have i: "initialized tr'"
    using write_all_buffers [OF bufs f] by (simp add: initialized_def tr'_def)
  have sh: "map_option (map (\<lambda>(pth, b). (pth, shape b))) (tree tr')
      = map_option (map (\<lambda>(pth, b). (pth, shape b))) (tree tr)"
    using write_all_shapes [OF l] by (simp add: tr'_def t)
  have d: "tr' = tr" if "step < - int (n_steps tr) \<or> int (n_steps tr) \<le> step"
    using write_all_dropped [OF bufs l that] t by (simp add: tr'_def)
  from s i sh d show ?thesis by (auto simp: tr'_def)
qed

theorem record_out_of_range_step_witness:
  "initialized \<lparr>n_steps = 2, tree = Some [([DictKey ''loss''], \<lparr>shape = [2, 2], elems = [0, 0, 0, 0 :: real]\<rparr>)]\<rparr>
   \<and> report_fits \<lparr>n_steps = 2, tree = Some [([DictKey ''loss''], \<lparr>shape = [2, 2], elems = [0, 0, 0, 0 :: real]\<rparr>)]\<rparr>
        [([DictKey ''loss''], \<lparr>shape = [2], elems = [1, 2 :: int]\<rparr>)]
   \<and> int 2 \<le> 5 \<and> (5 :: int) < 2 ^ 31
   \<and> record_report (\<lambda>pth offered expected. SyntaxError ''unterminated string literal'') real_of_int
        \<lparr>n_steps = 2, tree = Some [([DictKey ''loss''], \<lparr>shape = [2, 2], elems = [0, 0, 0, 0]\<rparr>)]\<rparr>
        [([DictKey ''loss''], \<lparr>shape = [2], elems = [1, 2]\<rparr>)] 5
       = Inr \<lparr>n_steps = 2, tree = Some [([DictKey ''loss''], \<lparr>shape = [2, 2], elems = [0, 0, 0, 0]\<rparr>)]\<rparr>"
  using record_out_of_range_step
    [where tr = "\<lparr>n_steps = 2, tree = Some [([DictKey ''loss''], \<lparr>shape = [2, 2], elems = [0, 0, 0, 0 :: real]\<rparr>)]\<rparr>"
       and r = "[([DictKey ''loss''], \<lparr>shape = [2], elems = [1, 2 :: int]\<rparr>)]"
       and step = 5
       and exec_malformed = "\<lambda>pth offered expected. SyntaxError ''unterminated string literal''"
       and cast = real_of_int]
  by (simp add: initialized_def report_fits_def buffer_ok_def leaf_fits_def index_shape_def
      record_report_def tree_map_with_path_def record_leaf_def at_set_def set_slot_def slot_of_def
      index_read_def int32_index_def)

text \<open>
  C9 as claimed does not hold. On the initialized trace of two steps, the record of a
  fitting report at step \<open>2^31\<close>, which is outside \<open>0 ..< 2\<close>, raises the
  \<open>OverflowError\<close> of the index conversion, and so does step \<open>- 2^31 - 1\<close>; on the
  initialized trace of no steps every step is outside the range, and the record of a
  fitting report at step \<open>0\<close> raises the \<open>IndexError\<close> of \<open>trace[step]\<close>.
\<close>

theorem record_out_of_range_step_raises:
  "initialized \<lparr>n_steps = 2, tree = Some [([DictKey ''loss''], \<lparr>shape = [2, 2], elems = [0, 0, 0, 0 :: real]\<rparr>)]\<rparr>
   \<and> report_fits \<lparr>n_steps = 2, tree = Some [([DictKey ''loss''], \<lparr>shape = [2, 2], elems = [0, 0, 0, 0 :: real]\<rparr>)]\<rparr>
        [([DictKey ''loss''], \<lparr>shape = [2], elems = [1, 2 :: int]\<rparr>)]
   \<and> record_report (\<lambda>pth offered expected. SyntaxError ''unterminated string literal'') real_of_int
        \<lparr>n_steps = 2, tree = Some [([DictKey ''loss''], \<lparr>shape = [2, 2], elems = [0, 0, 0, 0]\<rparr>)]\<rparr>
        [([DictKey ''loss''], \<lparr>shape = [2], elems = [1, 2]\<rparr>)] (2 ^ 31)
       = Inl (OverflowError ''Python int too large to convert to int32'')
   \<and> record_report (\<lambda>pth offered expected. SyntaxError ''unterminated string literal'') real_of_int
        \<lparr>n_steps = 2, tree = Some [([DictKey ''loss''], \<lparr>shape = [2, 2], elems = [0, 0, 0, 0]\<rparr>)]\<rparr>
        [([DictKey ''loss''], \<lparr>shape = [2], elems = [1, 2]\<rparr>)] (- (2 ^ 31) - 1)
       = Inl (OverflowError ''Python int too large to convert to int32'')
   \<and> initialized \<lparr>n_steps = 0, tree = Some [([DictKey ''loss''], \<lparr>shape = [0, 2], elems = [] :: real list\<rparr>)]\<rparr>
   \<and> report_fits \<lparr>n_steps = 0, tree = Some [([DictKey ''loss''], \<lparr>shape = [0, 2], elems = [] :: real list\<rparr>)]\<rparr>
        [([DictKey ''loss''], \<lparr>shape = [2], elems = [1, 2 :: int]\<rparr>)]
   \<and> record_report (\<lambda>pth offered expected. SyntaxError ''unterminated string literal'') real_of_int
        \<lparr>n_steps = 0, tree = Some [([DictKey ''loss''], \<lparr>shape = [0, 2], elems = []\<rparr>)]\<rparr>
        [([DictKey ''loss''], \<lparr>shape = [2], elems = [1, 2]\<rparr>)] 0
       = Inl (IndexError ''index is out of bounds for axis 0 with size 0'')"
  by (simp add: initialized_def report_fits_def buffer_ok_def leaf_fits_def index_shape_def
      record_report_def tree_map_with_path_def record_leaf_def
      index_read_def int32_index_def)

subsection \<open>Dropping and re-inserting coordinates\<close>

lemma select_unmasked_keep:
  "select_unmasked (map (\<lambda>i. i \<in> S) [p..<p + length row]) row = keep_from p S row"
proof (induction row arbitrary: p)
  case Nil then show ?case by (simp add: select_unmasked_def)
next
  case (Cons v vs)
  have "[p..<p + length (v # vs)] = p # [Suc p..<Suc p + length vs]"
    using upt_conv_Cons [of p "p + Suc (length vs)"] by simp
  with Cons [of "Suc p"] show ?case by (simp add: select_unmasked_def)
qed

lemma keep_from_append:
  "keep_from p S (a @ b) = keep_from p S a @ keep_from (p + length a) S b"
  by (induction a arbitrary: p) auto

lemma fill_from_append:
  "fill_from p S (a @ b) = fill_from p S a @ fill_from (p + length a) S b"
  by (induction a arbitrary: p) auto

lemma keep_from_none: "(\<And>k. p \<le> k \<Longrightarrow> k < p + length a \<Longrightarrow> k \<notin> S) \<Longrightarrow> keep_from p S a = a"
  by (induction a arbitrary: p) auto

lemma fill_from_none: "(\<And>k. p \<le> k \<Longrightarrow> k < p + length a \<Longrightarrow> k \<notin> S) \<Longrightarrow> fill_from p S a = a"
  by (induction a arbitrary: p) auto

lemma fill_from_length [simp]: "length (fill_from p S a) = length a"
  by (induction a arbitrary: p) auto

lemma fill_from_nth:
  "i < length a \<Longrightarrow> fill_from p S a ! i = (if p + i \<in> S then 0 else a ! i)"
proof (induction a arbitrary: p i)
  case Nil then show ?case by simp
next
  case (Cons v vs)
  then show ?case by (cases i) auto
qed

lemma keep_from_cong: "(\<And>k. p \<le> k \<Longrightarrow> k < p + length a \<Longrightarrow> (k \<in> S) = (k \<in> T)) \<Longrightarrow> keep_from p S a = keep_from p T a"
  by (induction a arbitrary: p) auto

lemma fill_from_cong: "(\<And>k. p \<le> k \<Longrightarrow> k < p + length a \<Longrightarrow> (k \<in> S) = (k \<in> T)) \<Longrightarrow> fill_from p S a = fill_from p T a"
  by (induction a arbitrary: p) auto


lemma insert_at_append: "length a = ix \<Longrightarrow> insert_at ix v (a @ b) = a @ v # b"
  by (simp add: insert_at_def)

lemma fold_insert_fill:
  assumes "sorted js" and "distinct js"
    and "\<forall>j\<in>set js. p \<le> j \<and> j < p + length row" and "length pre = p"
  shows "fold (\<lambda>ix r. insert_at ix 0 r) js (pre @ keep_from p (set js) row)
           = pre @ fill_from p (set js) row"
  using assms
proof (induction js arbitrary: p pre row)
  case Nil
  then show ?case by (simp add: keep_from_none fill_from_none)
next
  case (Cons j js)
  let ?S = "set (j # js)"
  define row1 where "row1 = take (j - p) row"
  define row2 where "row2 = drop (Suc (j - p)) row"
  from Cons.prems have jp: "p \<le> j" "j - p < length row" by auto
  have row: "row = row1 @ (row ! (j - p)) # row2"
    unfolding row1_def row2_def using jp(2) by (rule id_take_nth_drop)
  have l1: "length row1 = j - p" using jp(2) by (simp add: row1_def)
  have l2: "length row = Suc (j - p) + length row2" using jp(2) by (simp add: row2_def)
  have gt: "\<forall>k\<in>set js. j < k" using Cons.prems(1,2) by (auto simp: le_less)
  have below: "k \<notin> ?S" if "p \<le> k" "k < p + length row1" for k
    using that gt l1 jp(1) by auto
  have above: "(k \<in> ?S) = (k \<in> set js)" if "Suc j \<le> k" for k
    using that by auto
  have keep: "keep_from p ?S row = row1 @ keep_from (Suc j) (set js) row2"
  proof -
    have "keep_from p ?S row = keep_from p ?S row1 @ keep_from j ?S (row ! (j - p) # row2)"
      using keep_from_append [of p ?S row1 "row ! (j - p) # row2"] row l1 jp(1) by simp
    also have "keep_from p ?S row1 = row1" using below by (rule keep_from_none)
    also have "keep_from j ?S (row ! (j - p) # row2) = keep_from (Suc j) ?S row2" by simp
    also have "keep_from (Suc j) ?S row2 = keep_from (Suc j) (set js) row2"
      using above by (intro keep_from_cong) blast
    finally show ?thesis .
  qed
  have fill: "fill_from p ?S row = row1 @ 0 # fill_from (Suc j) (set js) row2"
  proof -
    have "fill_from p ?S row = fill_from p ?S row1 @ fill_from j ?S (row ! (j - p) # row2)"
      using fill_from_append [of p ?S row1 "row ! (j - p) # row2"] row l1 jp(1) by simp
    also have "fill_from p ?S row1 = row1" using below by (rule fill_from_none)
    also have "fill_from j ?S (row ! (j - p) # row2) = 0 # fill_from (Suc j) ?S row2" by simp
    also have "fill_from (Suc j) ?S row2 = fill_from (Suc j) (set js) row2"
      using above by (intro fill_from_cong) blast
    finally show ?thesis by simp
  qed
  have len: "length (pre @ row1) = j" using Cons.prems(4) l1 jp(1) by simp
  have ih: "fold (\<lambda>ix r. insert_at ix 0 r) js ((pre @ row1 @ [0]) @ keep_from (Suc j) (set js) row2)
      = (pre @ row1 @ [0]) @ fill_from (Suc j) (set js) row2"
  proof (rule Cons.IH)
    show "sorted js" "distinct js" using Cons.prems(1,2) by simp_all
    show "\<forall>k\<in>set js. Suc j \<le> k \<and> k < Suc j + length row2"
      using gt Cons.prems(3) l2 jp(1) by auto
    show "length (pre @ row1 @ [0]) = Suc j" using len by simp
  qed
  have "fold (\<lambda>ix r. insert_at ix 0 r) (j # js) (pre @ keep_from p ?S row)
      = fold (\<lambda>ix r. insert_at ix 0 r) js (insert_at j 0 ((pre @ row1) @ keep_from (Suc j) (set js) row2))"
    using keep by simp
  also have "insert_at j 0 ((pre @ row1) @ keep_from (Suc j) (set js) row2)
      = (pre @ row1 @ [0]) @ keep_from (Suc j) (set js) row2"
    using insert_at_append [OF len] by simp
  also note ih
  finally show ?case using fill by simp
qed

lemma insert_dropped_reduce:
  assumes "distinct ixs" and "\<forall>i\<in>set ixs. i < length row"
  shows "insert_dropped ixs (select_unmasked (map (\<lambda>i. i \<in> set ixs) [0..<length row]) row)
           = fill_from 0 (set ixs) row"
proof -
  have "fold (\<lambda>ix r. insert_at ix 0 r) (sort ixs) ([] @ keep_from 0 (set (sort ixs)) row)
      = [] @ fill_from 0 (set (sort ixs)) row"
    using assms by (intro fold_insert_fill) auto
  then show ?thesis
    using select_unmasked_keep [of "set ixs" 0 row] by (simp add: insert_dropped_def)
qed

lemma concat_pieces:
  "length row = k * d \<Longrightarrow> concat (map (\<lambda>j. take d (drop (j * d) row)) [0..<k]) = row"
proof (induction k arbitrary: row)
  case 0 then show ?case by simp
next
  case (Suc k)
  have "[0..<Suc k] = 0 # map Suc [0..<k]" by (simp add: upt_conv_Cons map_Suc_upt)
  then have "concat (map (\<lambda>j. take d (drop (j * d) row)) [0..<Suc k])
      = take d row @ concat (map (\<lambda>j. take d (drop (j * d) (drop d row))) [0..<k])"
    by (simp add: comp_def add.commute)
  also have "concat (map (\<lambda>j. take d (drop (j * d) (drop d row))) [0..<k]) = drop d row"
    using Suc.prems by (intro Suc.IH) simp
  finally show ?case by simp
qed

lemma reshape_kpts_ok:
  assumes "length row = k * d" and "0 < k"
  shows "\<exists>y. reshape_kpts k row = Inr y \<and> length y = k \<and> list_all (\<lambda>kp. length kp = d) y
           \<and> concat y = row"
proof -
  from assms(2) have False: "k \<noteq> 0" by simp
  then have d: "length row div k = d" "length row mod k = 0" using assms by simp_all
  have "length (take d (drop (j * d) row)) = d" if "j < k" for j
  proof -
    have "Suc j * d \<le> k * d" using that by (intro mult_le_mono1) simp
    then show ?thesis using assms by simp
  qed
  then have "list_all (\<lambda>kp. length kp = d) (map (\<lambda>j. take d (drop (j * d) row)) [0..<k])"
    by (simp add: list_all_iff)
  then show ?thesis using False d concat_pieces [OF assms(1)] by (simp add: reshape_kpts_def)
qed


lemma mapM_err_map: "mapM_err f (map h xs) = mapM_err (\<lambda>x. f (h x)) xs"
  by (induction xs) auto

lemma mapM_err_all2:
  "\<forall>x\<in>set xs. \<exists>y. f x = Inr y \<and> P x y \<Longrightarrow> \<exists>ys. mapM_err f xs = Inr ys \<and> list_all2 P xs ys"
proof (induction xs)
  case Nil then show ?case by simp
next
  case (Cons x xs)
  then obtain y ys where "f x = Inr y" "P x y" "mapM_err f xs = Inr ys" "list_all2 P xs ys"
    by auto
  then have "mapM_err f (x # xs) = Inr (y # ys) \<and> list_all2 P (x # xs) (y # ys)" by simp
  then show ?case by blast
qed

lemma length_concat_uniform:
  "list_all (\<lambda>kp. length kp = d) frame \<Longrightarrow> length (concat frame) = length frame * d"
  by (induction frame) auto

lemma filter_single:
  assumes "j < n" and "P j" and "\<forall>i<n. i \<noteq> j \<longrightarrow> \<not> P i"
  shows "filter P [0..<n] = [j]"
proof -
  have split: "[0..<n] = [0..<j] @ j # [Suc j..<n]"
    using assms(1) by (metis le0 upt_add_eq_append upt_conv_Cons le_add_diff_inverse less_imp_le_nat add.commute)
  have "filter P [0..<j] = []" using assms(1,3) by (auto simp: filter_empty_conv)
  moreover have "filter P [Suc j..<n] = []" using assms(3) by (auto simp: filter_empty_conv)
  ultimately show ?thesis using assms(2) by (simp add: split)
qed

subsection \<open>C2\<close>

text \<open>
  C2 (amended). For an array \<open>x\<close> of shape \<open>(nf, nk, d)\<close> with at least one frame and
  at least one keypoint, and a calibration of \<open>locked_pts\<close> for that shape (\<open>nk\<close>
  keypoints, distinct dropped indices below \<open>nk * d\<close>), \<open>reduce_array\<close> returns, and
  \<open>inflate_array\<close> of its result returns an array of the same shape that is zero at
  every dropped flattened coordinate and equal to \<open>x\<close> at every other one. And
  calibrating on a dataset in which exactly the flattened column \<open>j\<close> has a standard
  deviation that compares below \<open>1e-5\<close> gives \<open>reduce_ixs = [j]\<close>.
\<close>

theorem locked_pts_reduce_inflate:
  assumes "has_shape x nf nk d" and "0 < nf" and "0 < nk" and "n_kpts calib = nk"
    and "distinct (reduce_ixs calib)" and "\<forall>i\<in>set (reduce_ixs calib). i < nk * d"
  shows "(\<exists>r y. reduce_array x calib = Inr r
            \<and> inflate_array (Batch r) calib = Inr (BatchK y)
            \<and> has_shape y nf nk d
            \<and> (\<forall>f<nf. \<forall>i<nk * d.
                  concat (y ! f) ! i
                    = (if i \<in> set (reduce_ixs calib) then 0 else concat (x ! f) ! i)))
       \<and> (j < ncols (as_features_data dataset)
            \<and> lt (std (column (as_features_data dataset) j)) tol
            \<and> (\<forall>i<ncols (as_features_data dataset). i \<noteq> j \<longrightarrow>
                  \<not> lt (std (column (as_features_data dataset) i)) tol)
          \<longrightarrow> reduce_ixs (locked_calibrate std lt tol dataset) = [j])"
proof (intro conjI impI)
  let ?S = "set (reduce_ixs calib)"
  let ?flat = "map concat x"
  let ?mask = "map (\<lambda>i. i \<in> ?S) [0..<ncols ?flat]"
  let ?f = "\<lambda>row. reshape_kpts (n_kpts calib)
               (insert_dropped (reduce_ixs calib) (select_unmasked ?mask row))"
  let ?P = "\<lambda>row y. length y = nk \<and> list_all (\<lambda>kp. length kp = d) y
               \<and> concat y = fill_from 0 ?S row"
  have ne: "x \<noteq> []" using assms(1,2) by (auto simp: has_shape_def)
  have rows: "length row = nk * d" if "row \<in> set ?flat" for row
    using that assms(1) by (auto simp: has_shape_def list_all_iff length_concat_uniform)
  have cols: "ncols ?flat = nk * d"
  proof -
    from ne obtain fr rest where "x = fr # rest" by (cases x) auto
    then show ?thesis using rows [of "concat fr"] by (simp add: ncols_def)
  qed
  have "\<forall>row\<in>set ?flat. \<exists>y. ?f row = Inr y \<and> ?P row y"
  proof
    fix row assume r: "row \<in> set ?flat"
    note n = cols rows [OF r]
    have "insert_dropped (reduce_ixs calib) (select_unmasked ?mask row) = fill_from 0 ?S row"
      using insert_dropped_reduce [of "reduce_ixs calib" row] assms(5,6) n by simp
    moreover have "length (fill_from 0 ?S row) = nk * d" using n by simp
    ultimately show "\<exists>y. ?f row = Inr y \<and> ?P row y"
      using reshape_kpts_ok [of "fill_from 0 ?S row" nk d] assms(3,4) by auto
  qed
  from mapM_err_all2 [of ?flat ?f ?P, OF this] obtain ys
    where ys: "mapM_err ?f ?flat = Inr ys" "list_all2 ?P ?flat ys"
    by blast
  have red: "reduce_array x calib = Inr (map (select_unmasked ?mask) ?flat)"
    using ne by (simp add: reduce_array_def flatten_frames_def Let_def)
  have inf: "inflate_array (Batch (map (select_unmasked ?mask) ?flat)) calib = Inr (BatchK ys)"
    using ys(1) ne by (simp add: inflate_array_def mapM_err_map)
  have len: "length ys = nf" using ys(2) assms(1) by (auto simp: has_shape_def dest: list_all2_lengthD)
  have each: "length (ys ! f) = nk \<and> list_all (\<lambda>kp. length kp = d) (ys ! f)
      \<and> concat (ys ! f) = fill_from 0 ?S (concat (x ! f))" if "f < nf" for f
    using list_all2_nthD [OF ys(2), of f] that assms(1) by (simp add: has_shape_def)
  have shape: "has_shape ys nf nk d"
    using len each by (auto simp: has_shape_def list_all_length)
  have vals: "\<forall>f<nf. \<forall>i<nk * d.
      concat (ys ! f) ! i = (if i \<in> ?S then 0 else concat (x ! f) ! i)"
  proof (intro allI impI)
    fix f i assume f: "f < nf" and i: "i < nk * d"
    have "concat (x ! f) \<in> set ?flat" using f assms(1) by (auto simp: has_shape_def)
    from rows [OF this] i have "i < length (concat (x ! f))" by simp
    from fill_from_nth [OF this, of 0 ?S] each [OF f]
    show "concat (ys ! f) ! i = (if i \<in> ?S then 0 else concat (x ! f) ! i)" by simp
  qed
  from red inf shape vals
  show "\<exists>r y. reduce_array x calib = Inr r
      \<and> inflate_array (Batch r) calib = Inr (BatchK y)
      \<and> has_shape y nf nk d
      \<and> (\<forall>f<nf. \<forall>i<nk * d.
            concat (y ! f) ! i = (if i \<in> ?S then 0 else concat (x ! f) ! i))"
    by blast
next
  assume "j < ncols (as_features_data dataset)
      \<and> lt (std (column (as_features_data dataset) j)) tol
      \<and> (\<forall>i<ncols (as_features_data dataset). i \<noteq> j \<longrightarrow>
            \<not> lt (std (column (as_features_data dataset) i)) tol)"
  then show "reduce_ixs (locked_calibrate std lt tol dataset) = [j]"
    using filter_single [of j "ncols (as_features_data dataset)"
        "\<lambda>i. lt (std (column (as_features_data dataset) i)) tol"]
    by (simp add: locked_calibrate_def Let_def)
qed

theorem locked_pts_reduce_inflate_witness:
  "has_shape [[[1, 2], [3, 4]], [[1, 6], [7, 8 :: real]]] 2 2 2
   \<and> (0 :: nat) < 2 \<and> distinct [0 :: nat] \<and> (0 :: nat) < 2 * 2
   \<and> reduce_array [[[1, 2], [3, 4]], [[1, 6], [7, 8 :: real]]] \<lparr>reduce_ixs = [0], n_kpts = 2\<rparr>
       = Inr [[2, 3, 4], [6, 7, 8]]
   \<and> inflate_array (Batch [[2, 3, 4], [6, 7, 8 :: real]]) \<lparr>reduce_ixs = [0], n_kpts = 2\<rparr>
       = Inr (BatchK [[[0, 2], [3, 4]], [[0, 6], [7, 8]]])
   \<and> \<bar>column [[1, 2, 3, 4], [1, 6, 7, 8 :: real]] 0 ! 0 - column [[1, 2, 3, 4], [1, 6, 7, 8 :: real]] 0 ! 1\<bar> < 1 / 100000
   \<and> locked_calibrate (\<lambda>c. \<bar>c ! 0 - c ! 1\<bar>) (<) (1 / 100000)
        \<lparr>as_features_data = [[1, 2, 3, 4], [1, 6, 7, 8 :: real]], n_points = 2\<rparr>
       = \<lparr>reduce_ixs = [0], n_kpts = 2\<rparr>"
proof -
  have shape: "has_shape [[[1, 2], [3, 4]], [[1, 6], [7, 8 :: real]]] 2 2 2"
    by (simp add: has_shape_def)
  have reduced: "reduce_array [[[1, 2], [3, 4]], [[1, 6], [7, 8 :: real]]] \<lparr>reduce_ixs = [0], n_kpts = 2\<rparr>
      = Inr [[2, 3, 4], [6, 7, 8]]"
    by (simp add: reduce_array_def flatten_frames_def ncols_def select_unmasked_def upt_conv_Cons)
  have inflated: "inflate_array (Batch [[2, 3, 4], [6, 7, 8 :: real]]) \<lparr>reduce_ixs = [0], n_kpts = 2\<rparr>
      = Inr (BatchK [[[0, 2], [3, 4]], [[0, 6], [7, 8]]])"
    by (simp add: inflate_array_def insert_dropped_def insert_at_def reshape_kpts_def
        upt_conv_Cons)
  have calibrated: "locked_calibrate (\<lambda>c. \<bar>c ! 0 - c ! 1\<bar>) (<) (1 / 100000)
        \<lparr>as_features_data = [[1, 2, 3, 4], [1, 6, 7, 8 :: real]], n_points = 2\<rparr>
      = \<lparr>reduce_ixs = [0], n_kpts = 2\<rparr>"
    by (simp add: locked_calibrate_def ncols_def column_def upt_conv_Cons)
  have "\<exists>r y. reduce_array [[[1, 2], [3, 4]], [[1, 6], [7, 8 :: real]]] \<lparr>reduce_ixs = [0], n_kpts = 2\<rparr> = Inr r
      \<and> inflate_array (Batch r) \<lparr>reduce_ixs = [0], n_kpts = 2\<rparr> = Inr (BatchK y)
      \<and> has_shape y 2 2 2"
    using locked_pts_reduce_inflate
      [where x = "[[[1, 2], [3, 4]], [[1, 6], [7, 8 :: real]]]" and nf = 2 and nk = 2 and d = 2
         and calib = "\<lparr>reduce_ixs = [0], n_kpts = 2\<rparr>", THEN conjunct1]
      shape
    by simp blast
  with shape reduced inflated calibrated show ?thesis
    by (simp add: column_def)
qed

text \<open>
  C2 as claimed does not hold. The array of no frames has the shape \<open>(0, 2, 2)\<close>, and
  \<open>reduce_array\<close> raises on it at \<open>arr.reshape((arr.shape[0], -1))\<close>. The array
  \<open>[[]]\<close> has the shape \<open>(1, 0, 2)\<close>; \<open>reduce_array\<close> returns one empty row for it, and
  \<open>inflate_array\<close> with the calibration of its shape (\<open>n_kpts = 0\<close>, nothing dropped)
  raises at the reshape to \<open>(1, 0, -1)\<close>.
\<close>

theorem locked_pts_empty_axis_raises:
  "has_shape ([] :: real list list list) 0 2 2
   \<and> reduce_array ([] :: real list list list) \<lparr>reduce_ixs = [0], n_kpts = 2\<rparr>
       = Inl (TypeError ''cannot reshape array'')
   \<and> has_shape ([[]] :: real list list list) 1 0 2
   \<and> reduce_array ([[]] :: real list list list) \<lparr>reduce_ixs = [], n_kpts = 0\<rparr> = Inr [[]]
   \<and> inflate_array (Batch ([[]] :: real list list)) \<lparr>reduce_ixs = [], n_kpts = 0\<rparr>
       = Inl (TypeError ''cannot reshape array'')"
  by (simp add: has_shape_def reduce_array_def flatten_frames_def ncols_def select_unmasked_def
      inflate_array_def insert_dropped_def reshape_kpts_def)

text \<open>
  The calibration has to be one for the array's shape. With the index \<open>0\<close> listed
  twice, reduction drops one coordinate of the frame and inflation inserts two: the
  five entries do not reshape to two keypoints.
\<close>

lemma locked_pts_repeated_index:
  "reduce_array [[[1, 2], [3, 4 :: real]]] \<lparr>reduce_ixs = [0, 0], n_kpts = 2\<rparr> = Inr [[2, 3, 4]]
   \<and> inflate_array (Batch [[2, 3, 4 :: real]]) \<lparr>reduce_ixs = [0, 0], n_kpts = 2\<rparr>
       = Inl (TypeError ''cannot reshape array'')"
  by (simp add: reduce_array_def flatten_frames_def ncols_def select_unmasked_def upt_conv_Cons
      inflate_array_def insert_dropped_def insert_at_def reshape_kpts_def)

subsection \<open>Generated model names and dictionaries\<close>

declare str_nat.simps [simp del]

lemma digit_inj:
  assumes "a < 10" and "b < 10" and "''0123456789'' ! a = ''0123456789'' ! b"
  shows "a = b"
proof -
  have "distinct ''0123456789''" by simp
  moreover have "a < length ''0123456789''" "b < length ''0123456789''" using assms by simp_all
  ultimately show ?thesis using assms(3) by (simp only: nth_eq_iff_index_eq)
qed

lemma str_nat_small: "n < 10 \<Longrightarrow> str_nat n = [''0123456789'' ! n]"
  by (subst str_nat.simps) simp

lemma str_nat_large:
  "\<not> n < 10 \<Longrightarrow> str_nat n = str_nat (n div 10) @ [''0123456789'' ! (n mod 10)]"
  by (subst str_nat.simps) simp

lemma str_nat_nonempty: "str_nat n \<noteq> []"
  by (cases "n < 10") (simp_all add: str_nat_small str_nat_large)

lemma str_nat_inj: "str_nat n = str_nat m \<Longrightarrow> n = m"
proof (induction n arbitrary: m rule: str_nat.induct)
  case (1 n)
  show ?case
  proof (cases "n < 10")
    case small: True
    show ?thesis
    proof (cases "m < 10")
      case True
      with small "1.prems" show ?thesis
        by (auto simp: str_nat_small intro: digit_inj)
    next
      case False
      with small "1.prems" str_nat_nonempty [of "m div 10"] show ?thesis
        by (simp add: str_nat_small str_nat_large)
    qed
  next
    case large: False
    show ?thesis
    proof (cases "m < 10")
      case True
      with large "1.prems" str_nat_nonempty [of "n div 10"] show ?thesis
        by (simp add: str_nat_small str_nat_large)
    next
      case False
      with large "1.prems" have eq: "str_nat (n div 10) = str_nat (m div 10)"
        and d: "''0123456789'' ! (n mod 10) = ''0123456789'' ! (m mod 10)"
        by (simp_all add: str_nat_large)
      from "1.IH" [OF large eq] have "n div 10 = m div 10" .
      moreover have "n mod 10 = m mod 10" using d by (intro digit_inj) simp_all
      ultimately show ?thesis by (metis div_mult_mod_eq)
    qed
  qed
qed

lemma default_model_name_fmt_inj:
  "default_model_name_fmt name i = default_model_name_fmt name j \<Longrightarrow> i = j"
  by (simp add: default_model_name_fmt_def str_nat_inj)

lemma default_names_distinct: "distinct (map (default_model_name_fmt name) [0..<n])"
  by (simp add: distinct_map inj_on_def) (blast dest: default_model_name_fmt_inj)

lemma dict_set_fresh: "k \<notin> fst ` set d \<Longrightarrow> dict_set k v d = d @ [(k, v)]"
  by (induction d) auto

lemma fold_dict_set:
  "distinct (map fst (acc @ items)) \<Longrightarrow>
     fold (\<lambda>(k, v) d. dict_set k v d) items acc = acc @ items"
proof (induction items arbitrary: acc)
  case Nil then show ?case by simp
next
  case (Cons kv items)
  obtain k v where kv: "kv = (k, v)" by (cases kv)
  from Cons.prems kv have "k \<notin> fst ` set acc" by auto
  then have "dict_set k v acc = acc @ [(k, v)]" by (rule dict_set_fresh)
  moreover have "distinct (map fst ((acc @ [(k, v)]) @ items))" using Cons.prems kv by simp
  ultimately show ?case using Cons.IH [of "acc @ [(k, v)]"] kv by simp
qed

lemma dict_of_distinct: "distinct (map fst items) \<Longrightarrow> dict_of items = items"
  using fold_dict_set [of "[]" items] by (simp add: dict_of_def)

lemma model_overrides_at_ok:
  assumes "distinct (map fst params)" and "\<forall>(p, vals)\<in>set params. i < length vals"
  shows "model_overrides_at params i = Inr (map (\<lambda>(p, vals). (p, vals ! i)) params)"
proof -
  have "mapM_err (\<lambda>(p_name, p_vals). bind_err (list_get p_vals i) (\<lambda>v. Inr (p_name, v))) params
      = Inr (map (\<lambda>(p, vals). (p, vals ! i)) params)"
    using assms(2) by (intro mapM_err_Inr) (auto simp: list_get_def)
  moreover have "map fst (map (\<lambda>(p, vals). (p, vals ! i)) params) = map fst params"
    by (induction params) auto
  then have "distinct (map fst (map (\<lambda>(p, vals). (p, vals ! i)) params))"
    using assms(1) by (simp only:)
  then have "dict_of (map (\<lambda>(p, vals). (p, vals ! i)) params)
      = map (\<lambda>(p, vals). (p, vals ! i)) params"
    by (rule dict_of_distinct)
  ultimately show ?thesis
    by (simp add: model_overrides_at_def)
qed

lemma scan_models:
  assumes "distinct (map fst params)" and "\<forall>(p, vals)\<in>set params. length vals = n"
  shows "mapM_err (\<lambda>i. bind_err (model_overrides_at params i) (\<lambda>ov. Inr (fmt name i, CDict ov)))
           [0..<n]
         = Inr (map (\<lambda>i. (fmt name i, CDict (map (\<lambda>(p, vals). (p, vals ! i)) params))) [0..<n])"
proof (rule mapM_err_Inr)
  fix i assume "i \<in> set [0..<n]"
  then have "\<forall>(p, vals)\<in>set params. i < length vals" using assms(2) by auto
  from model_overrides_at_ok [OF assms(1) this]
  show "bind_err (model_overrides_at params i) (\<lambda>ov. Inr (fmt name i, CDict ov))
      = Inr (fmt name i, CDict (map (\<lambda>(p, vals). (p, vals ! i)) params))"
    by simp
qed

subsection \<open>C3\<close>

text \<open>
  C3 (amended). For a grid with at least one parameter, with distinct parameter names,
  whose value lists all have length \<open>n\<close>,
  and a base model configuration (after the model overrides) that has a fit type:
  when the fit type is \<open>standard\<close>, \<open>setup_scan_config\<close> with the default name
  template returns a manifest whose \<open>models\<close> mapping has exactly the \<open>n\<close> distinct
  names \<open>name_0, ..., name_(n-1)\<close>, model \<open>i\<close> being given the \<open>i\<close>-th value of every
  parameter; when the fit type is anything else, it raises the \<open>ValueError\<close>.
\<close>

theorem setup_scan_config_models:
  assumes "flatten env grid = params" and "params \<noteq> []"
    and "distinct (map fst params)"
    and "\<forall>(p, vals)\<in>set params. length vals = n"
    and "dict_get (recursive_update env (base_model_config env) (deepen env model_overrides)) ''fit''
           = Inr fit"
    and "cfg_get fit ''type'' = Inr fit_type"
  shows "(fit_type = CStr ''standard'' \<longrightarrow>
           (\<exists>config model_config ops.
              setup_scan_config env project_dir name grid scan_config_overrides
                  default_model_name_fmt model_overrides
                = Inr (config, model_config, ops)
              \<and> cfg_get config ''models''
                  = Inr (CDict (map (\<lambda>i. (default_model_name_fmt name i,
                                          CDict (map (\<lambda>(p, vals). (p, vals ! i)) params)))
                                  [0..<n]))
              \<and> distinct (map (default_model_name_fmt name) [0..<n])))
       \<and> (fit_type \<noteq> CStr ''standard'' \<longrightarrow>
            setup_scan_config env project_dir name grid scan_config_overrides
                model_name_fmt model_overrides
              = Inl (ValueError ''Scan only supports standard fit type for base model.''))"
proof -
  from assms(2,4) obtain k vals rest where p: "params = (k, vals) # rest" "length vals = n"
    by (cases params) auto
  note models = scan_models [OF assms(3,4)]
  let ?items = "map (\<lambda>i. (default_model_name_fmt name i,
                           CDict (map (\<lambda>(p, vals). (p, vals ! i)) params))) [0..<n]"
  have "map fst ?items = map (default_model_name_fmt name) [0..<n]" by simp
  then have "distinct (map fst ?items)" using default_names_distinct [of name n] by (simp only:)
  then have items: "dict_of ?items = ?items" by (rule dict_of_distinct)
  have ok: "fit_type = CStr ''standard'' \<Longrightarrow>
      \<exists>config model_config ops.
        setup_scan_config env project_dir name grid scan_config_overrides
            default_model_name_fmt model_overrides
          = Inr (config, model_config, ops)
        \<and> cfg_get config ''models'' = Inr (CDict ?items)
        \<and> distinct (map (default_model_name_fmt name) [0..<n])"
    using assms(1,5,6) p models [of default_model_name_fmt name] items
      default_names_distinct [of name n]
    by (simp add: setup_scan_config_def Let_def cfg_get_def dict_get_def del: map_map)
  have bad: "fit_type \<noteq> CStr ''standard'' \<Longrightarrow>
      setup_scan_config env project_dir name grid scan_config_overrides
          model_name_fmt model_overrides
        = Inl (ValueError ''Scan only supports standard fit type for base model.'')"
    using assms(1,5,6) p models [of model_name_fmt name]
    by (simp add: setup_scan_config_def Let_def)
  from ok bad show ?thesis by blast
qed

theorem setup_scan_config_models_witness:
  "[(''fit.lr'', [CInt 1, CInt 2, CInt 3]), (''fit.n'', [CInt 7, CInt 8, CInt 9])] \<noteq> []
   \<and> distinct (map fst [(''fit.lr'', [CInt 1, CInt 2, CInt 3]), (''fit.n'', [CInt 7, CInt 8, CInt 9])])
   \<and> list_all (\<lambda>(p, vals). length vals = 3) [(''fit.lr'', [CInt 1, CInt 2, CInt 3]), (''fit.n'', [CInt 7, CInt 8, CInt 9])]
   \<and> (case setup_scan_config
          \<lparr>flatten = (\<lambda>g. g), deepen = (\<lambda>d. d), recursive_update = (\<lambda>a b. a),
       base_model_config = [(''fit'', CDict [(''type'', CStr ''standard'')])], split_defaults = []\<rparr>
          ''proj'' ''scan'' [(''fit.lr'', [CInt 1, CInt 2, CInt 3]), (''fit.n'', [CInt 7, CInt 8, CInt 9])] [] default_model_name_fmt [] of
        Inl e \<Rightarrow> False
      | Inr (config, model_config, ops) \<Rightarrow>
          cfg_get config ''models''
            = Inr (CDict [(''scan_0'', CDict [(''fit.lr'', CInt 1), (''fit.n'', CInt 7)]),
                   (''scan_1'', CDict [(''fit.lr'', CInt 2), (''fit.n'', CInt 8)]),
                   (''scan_2'', CDict [(''fit.lr'', CInt 3), (''fit.n'', CInt 9)])]))
   \<and> setup_scan_config
          \<lparr>flatten = (\<lambda>g. g), deepen = (\<lambda>d. d), recursive_update = (\<lambda>a b. a),
       base_model_config = [(''fit'', CDict [(''type'', CStr ''split'')])], split_defaults = []\<rparr>
          ''proj'' ''scan'' [(''fit.lr'', [CInt 1, CInt 2, CInt 3]), (''fit.n'', [CInt 7, CInt 8, CInt 9])] [] default_model_name_fmt []
       = Inl (ValueError ''Scan only supports standard fit type for base model.'')"
proof -
  have ok: "setup_scan_config
          \<lparr>flatten = (\<lambda>g. g), deepen = (\<lambda>d. d), recursive_update = (\<lambda>a b. a),
       base_model_config = [(''fit'', CDict [(''type'', CStr ''standard'')])], split_defaults = []\<rparr>
          ''proj'' ''scan'' [(''fit.lr'', [CInt 1, CInt 2, CInt 3]), (''fit.n'', [CInt 7, CInt 8, CInt 9])] [] default_model_name_fmt []
      = Inr (CDict [(''models'', CDict [(''scan_0'', CDict [(''fit.lr'', CInt 1), (''fit.n'', CInt 7)]),
                   (''scan_1'', CDict [(''fit.lr'', CInt 2), (''fit.n'', CInt 8)]),
                   (''scan_2'', CDict [(''fit.lr'', CInt 3), (''fit.n'', CInt 9)])])],
             CDict [(''fit'', CDict [(''type'', CStr ''split''),
                                     (''em'', CDict [(''type'', CStr ''standard'')])])],
             [Mkdir ''proj'', Mkdir ''proj/scans'', Mkdir ''proj/models'', Mkdir ''proj/scans/scan'',
              Save ''proj/scans/scan/scan.yml'' (CDict [(''models'', CDict [(''scan_0'', CDict [(''fit.lr'', CInt 1), (''fit.n'', CInt 7)]),
                   (''scan_1'', CDict [(''fit.lr'', CInt 2), (''fit.n'', CInt 8)]),
                   (''scan_2'', CDict [(''fit.lr'', CInt 3), (''fit.n'', CInt 9)])])]),
              Save ''proj/scans/scan/base_model.yml''
                (CDict [(''fit'', CDict [(''type'', CStr ''split''),
                                         (''em'', CDict [(''type'', CStr ''standard'')])])])])"
    by (simp add: setup_scan_config_def model_overrides_at_def list_get_def dict_of_def dict_get_def
        cfg_get_def default_model_name_fmt_def str_nat_small upt_conv_Cons Let_def scan_dir_def ensure_dirs_def)
  have "setup_scan_config
          \<lparr>flatten = (\<lambda>g. g), deepen = (\<lambda>d. d), recursive_update = (\<lambda>a b. a),
       base_model_config = [(''fit'', CDict [(''type'', CStr ''split'')])], split_defaults = []\<rparr>
          ''proj'' ''scan'' [(''fit.lr'', [CInt 1, CInt 2, CInt 3]), (''fit.n'', [CInt 7, CInt 8, CInt 9])] [] default_model_name_fmt []
      = Inl (ValueError ''Scan only supports standard fit type for base model.'')"
    using setup_scan_config_models
      [where env = "\<lparr>flatten = (\<lambda>g. g), deepen = (\<lambda>d. d), recursive_update = (\<lambda>a b. a),
       base_model_config = [(''fit'', CDict [(''type'', CStr ''split'')])], split_defaults = []\<rparr>"
         and grid = "[(''fit.lr'', [CInt 1, CInt 2, CInt 3]), (''fit.n'', [CInt 7, CInt 8, CInt 9])]"
         and params = "[(''fit.lr'', [CInt 1, CInt 2, CInt 3]), (''fit.n'', [CInt 7, CInt 8, CInt 9])]"
         and n = 3 and model_overrides = "[]" and fit = "CDict [(''type'', CStr ''split'')]"
         and fit_type = "CStr ''split''" and model_name_fmt = default_model_name_fmt]
    by (simp add: dict_get_def cfg_get_def)
  with ok show ?thesis by (simp add: cfg_get_def dict_get_def)
qed

text \<open>
  C3 as claimed does not hold. The grid with no parameter is one whose value lists all
  have length \<open>0\<close> (it has none). \<open>setup_scan_config\<close> raises on it at
  \<open>list(scan_params.keys())[0]\<close>, before the \<open>models\<close> mapping is built and before the
  fit type is looked at: with the fit type \<open>standard\<close> no manifest is produced, and
  with the fit type \<open>split\<close> the error is the \<open>IndexError\<close>, not the \<open>ValueError\<close>.
\<close>

theorem setup_scan_config_empty_grid:
  "list_all (\<lambda>(p, vals). length vals = 0) (flatten \<lparr>flatten = (\<lambda>g. g), deepen = (\<lambda>d. d), recursive_update = (\<lambda>a b. a),
       base_model_config = [(''fit'', CDict [(''type'', CStr ''standard'')])], split_defaults = []\<rparr> [])
   \<and> setup_scan_config
        \<lparr>flatten = (\<lambda>g. g), deepen = (\<lambda>d. d), recursive_update = (\<lambda>a b. a),
       base_model_config = [(''fit'', CDict [(''type'', CStr ''standard'')])], split_defaults = []\<rparr>
        ''proj'' ''scan'' [] [] default_model_name_fmt []
     = Inl (IndexError ''list index out of range'')
   \<and> setup_scan_config
        \<lparr>flatten = (\<lambda>g. g), deepen = (\<lambda>d. d), recursive_update = (\<lambda>a b. a),
       base_model_config = [(''fit'', CDict [(''type'', CStr ''split'')])], split_defaults = []\<rparr>
        ''proj'' ''scan'' [] [] default_model_name_fmt []
     = Inl (IndexError ''list index out of range'')"
  by (simp add: setup_scan_config_def)

end
